theory Spec2Isabelle
  imports Main "HOL-Library.FSet" "HOL-Library.AList"
begin

section \<open>Python values, errors and dictionaries\<close>

text \<open>
  The module \<^verbatim>\<open>bisheng/interface/initialize/loading.py\<close> works on untyped Python values:
  parameter dictionaries whose values are literals, containers or objects built by
  upstream nodes. The values are modelled by one datatype.
  \<^item> \<open>PInt\<close> also stands for the booleans (\<open>True\<close> is \<open>1\<close> and \<open>False\<close> is \<open>0\<close> in Python,
    equal and hashing alike); floating point numbers are not modelled.
  \<^item> \<open>PStr\<close> is a text, one \<open>char\<close> for each code point.
  \<^item> \<open>PDict\<close> keeps the insertion order, as Python's \<open>dict\<close> does.
  \<^item> \<open>PSet\<close> is a finite set: Python sets have no order of their own and compare by
    their elements.
  \<^item> \<open>PObj c attrs\<close> is an object of the class named \<open>c\<close> with the attributes \<open>attrs\<close>
    (what \<open>hasattr\<close> and \<open>getattr\<close> see). Objects compare by their contents here.
  \<^item> \<open>PFunc n captured\<close> is a function value: a builtin such as \<open>str\<close>, or a closure with
    the values it captured.
\<close>

datatype pyval =
    PNone
  | PInt int
  | PStr string
  | PList "pyval list"
  | PTuple "pyval list"
  | PSet "pyval fset"
  | PDict "(pyval \<times> pyval) list"
  | PObj string "(string \<times> pyval) list"
  | PFunc string "pyval list"

text \<open>An exception: the name of its class and its message (\<open>str(exc)\<close>).\<close>

datatype pyexc = PyExc (exc_type: string) (exc_msg: string)

type_synonym 'a result = "pyexc + 'a"

text \<open>A keyword-argument dictionary \<open>params\<close>: text keys, in insertion order.\<close>

type_synonym params = "(string \<times> pyval) list"

definition bindE :: "'a result \<Rightarrow> ('a \<Rightarrow> 'b result) \<Rightarrow> 'b result" where
  "bindE m f = (case m of Inl e \<Rightarrow> Inl e | Inr x \<Rightarrow> f x)"

text \<open>Truth value of \<open>not v\<close> / \<open>if v\<close>.\<close>

fun py_truthy :: "pyval \<Rightarrow> bool" where
  "py_truthy PNone = False"
| "py_truthy (PInt i) = (i \<noteq> 0)"
| "py_truthy (PStr s) = (s \<noteq> [])"
| "py_truthy (PList xs) = (xs \<noteq> [])"
| "py_truthy (PTuple xs) = (xs \<noteq> [])"
| "py_truthy (PSet S) = (S \<noteq> {||})"
| "py_truthy (PDict kvs) = (kvs \<noteq> [])"
| "py_truthy (PObj c attrs) = True"
| "py_truthy (PFunc n cap) = True"

fun isinstance_str :: "pyval \<Rightarrow> bool" where
  "isinstance_str (PStr s) = True"
| "isinstance_str v = False"

fun isinstance_list :: "pyval \<Rightarrow> bool" where
  "isinstance_list (PList xs) = True"
| "isinstance_list v = False"

fun isinstance_set :: "pyval \<Rightarrow> bool" where
  "isinstance_set (PSet S) = True"
| "isinstance_set v = False"

text \<open>Lists, dictionaries and sets cannot be hashed; a tuple can when its items can.\<close>

fun py_hashable :: "pyval \<Rightarrow> bool" where
  "py_hashable (PList xs) = False"
| "py_hashable (PDict kvs) = False"
| "py_hashable (PSet S) = False"
| "py_hashable (PTuple xs) = list_all py_hashable xs"
| "py_hashable v = True"

text \<open>\<open>getattr(v, name)\<close> and \<open>hasattr(v, name)\<close> for the attributes of objects.\<close>

fun py_getattr :: "pyval \<Rightarrow> string \<Rightarrow> pyval result" where
  "py_getattr (PObj c attrs) name =
     (case map_of attrs name of
        Some v \<Rightarrow> Inr v
      | None \<Rightarrow> Inl (PyExc ''AttributeError'' name))"
| "py_getattr v name = Inl (PyExc ''AttributeError'' name)"

fun py_hasattr :: "pyval \<Rightarrow> string \<Rightarrow> bool" where
  "py_hasattr (PObj c attrs) name = (map_of attrs name \<noteq> None)"
| "py_hasattr v name = False"

fun py_setattr :: "pyval \<Rightarrow> string \<Rightarrow> pyval \<Rightarrow> pyval result" where
  "py_setattr (PObj c attrs) name x = Inr (PObj c (AList.update name x attrs))"
| "py_setattr v name x = Inl (PyExc ''AttributeError'' name)"

text \<open>\<open>seq[i]\<close> for a list, tuple or text and an integer \<open>i\<close>; negative indices count from
  the end.\<close>

definition seq_index :: "'a list \<Rightarrow> int \<Rightarrow> 'a result" where
  "seq_index xs i =
     (if 0 \<le> i \<and> i < int (length xs) then Inr (xs ! nat i)
      else if i < 0 \<and> - int (length xs) \<le> i then Inr (xs ! nat (int (length xs) + i))
      else Inl (PyExc ''IndexError'' ''index out of range''))"

text \<open>\<open>d[k]\<close> on a dictionary: \<open>TypeError\<close> for an unhashable key, \<open>KeyError\<close> for a
  missing one.\<close>

definition dict_getitem :: "(pyval \<times> pyval) list \<Rightarrow> pyval \<Rightarrow> pyval result" where
  "dict_getitem kvs k =
     (if \<not> py_hashable k then Inl (PyExc ''TypeError'' ''unhashable type'')
      else case map_of kvs k of
             Some v \<Rightarrow> Inr v
           | None \<Rightarrow> Inl (PyExc ''KeyError'' ''''))"

definition py_getitem :: "pyval \<Rightarrow> pyval \<Rightarrow> pyval result" where
  "py_getitem c k =
     (case c of
        PDict kvs \<Rightarrow> dict_getitem kvs k
      | PList xs \<Rightarrow>
          (case k of PInt i \<Rightarrow> seq_index xs i
           | _ \<Rightarrow> Inl (PyExc ''TypeError'' ''indices must be integers''))
      | PTuple xs \<Rightarrow>
          (case k of PInt i \<Rightarrow> seq_index xs i
           | _ \<Rightarrow> Inl (PyExc ''TypeError'' ''indices must be integers''))
      | PStr s \<Rightarrow>
          (case k of PInt i \<Rightarrow> map_sum id (\<lambda>ch. PStr [ch]) (seq_index s i)
           | _ \<Rightarrow> Inl (PyExc ''TypeError'' ''indices must be integers''))
      | _ \<Rightarrow> Inl (PyExc ''TypeError'' ''object is not subscriptable''))"

text \<open>\<open>x in c\<close>.\<close>

fun str_contains :: "string \<Rightarrow> string \<Rightarrow> bool" where
  "str_contains sub [] = (sub = [])"
| "str_contains sub (c # cs) = (take (length sub) (c # cs) = sub \<or> str_contains sub cs)"

definition py_contains :: "pyval \<Rightarrow> pyval \<Rightarrow> bool result" where
  "py_contains c x =
     (case c of
        PDict kvs \<Rightarrow>
          if py_hashable x then Inr (map_of kvs x \<noteq> None)
          else Inl (PyExc ''TypeError'' ''unhashable type'')
      | PSet S \<Rightarrow>
          if py_hashable x then Inr (x |\<in>| S)
          else Inl (PyExc ''TypeError'' ''unhashable type'')
      | PList xs \<Rightarrow> Inr (x \<in> set xs)
      | PTuple xs \<Rightarrow> Inr (x \<in> set xs)
      | PStr s \<Rightarrow>
          (case x of PStr sub \<Rightarrow> Inr (str_contains sub s)
           | _ \<Rightarrow> Inl (PyExc ''TypeError'' ''in <string> requires string as left operand''))
      | _ \<Rightarrow> Inl (PyExc ''TypeError'' ''argument is not iterable''))"

text \<open>\<open>params.pop(key, default)\<close> and \<open>params.get(key, default)\<close>.\<close>

definition dict_get :: "params \<Rightarrow> string \<Rightarrow> pyval \<Rightarrow> pyval" where
  "dict_get ps k dflt = (case map_of ps k of Some v \<Rightarrow> v | None \<Rightarrow> dflt)"

text \<open>
  \<open>dict.update(other)\<close> on the items of a dictionary. \<open>other\<close> is a dictionary (its items
  are stored in turn, a key already present keeps its place and takes the new value) or a
  list or tuple of two-item lists or tuples. Other iterables of pairs are reported as
  \<open>TypeError\<close>.
\<close>

definition pair_of_items :: "pyval list \<Rightarrow> (pyval \<times> pyval) result" where
  "pair_of_items xs =
     (case xs of
        [k, v] \<Rightarrow> Inr (k, v)
      | _ \<Rightarrow> Inl (PyExc ''ValueError'' ''dictionary update sequence element has the wrong length''))"

definition as_pair :: "pyval \<Rightarrow> (pyval \<times> pyval) result" where
  "as_pair x =
     (case x of
        PList xs \<Rightarrow> pair_of_items xs
      | PTuple xs \<Rightarrow> pair_of_items xs
      | _ \<Rightarrow> Inl (PyExc ''TypeError'' ''cannot convert dictionary update sequence element to a sequence''))"

fun store_items :: "(pyval \<times> pyval) list \<Rightarrow> (pyval \<times> pyval) list \<Rightarrow> (pyval \<times> pyval) list result" where
  "store_items d [] = Inr d"
| "store_items d ((k, v) # kvs) =
     (if py_hashable k then store_items (AList.update k v d) kvs
      else Inl (PyExc ''TypeError'' ''unhashable type''))"

fun store_pairs :: "(pyval \<times> pyval) list \<Rightarrow> pyval list \<Rightarrow> (pyval \<times> pyval) list result" where
  "store_pairs d [] = Inr d"
| "store_pairs d (x # xs) =
     (case as_pair x of
        Inl e \<Rightarrow> Inl e
      | Inr (k, v) \<Rightarrow>
          if py_hashable k then store_pairs (AList.update k v d) xs
          else Inl (PyExc ''TypeError'' ''unhashable type''))"

definition dict_update :: "(pyval \<times> pyval) list \<Rightarrow> pyval \<Rightarrow> (pyval \<times> pyval) list result" where
  "dict_update d other =
     (case other of
        PDict kvs \<Rightarrow> store_items d kvs
      | PList xs \<Rightarrow> store_pairs d xs
      | PTuple xs \<Rightarrow> store_pairs d xs
      | _ \<Rightarrow> Inl (PyExc ''TypeError'' ''object is not iterable''))"

text \<open>\<open>s.split(',')\<close>: the pieces between the commas; the empty text gives one empty
  piece.\<close>

fun split_comma :: "string \<Rightarrow> string list" where
  "split_comma [] = [[]]"
| "split_comma (c # cs) =
     (if c = CHR '','' then [] # split_comma cs
      else (case split_comma cs of
              [] \<Rightarrow> [[c]]
            | p # ps \<Rightarrow> (c # p) # ps))"

section \<open>Classes and collaborators\<close>

text \<open>
  A class handle, as \<open>import_by_type\<close> resolves it: its \<open>__name__\<close>, its printed form
  (\<open>str(class_object)\<close>), what calling it with keyword arguments does
  (\<open>class_object(**params)\<close>: a built object or an exception), its class methods and
  factory methods by name (\<open>getattr(class_object, method, None)\<close>), and the names of its
  declared fields (\<open>__fields__\<close>).
\<close>

record pyclass =
  cls_name :: string
  cls_repr :: string
  cls_init :: "params \<Rightarrow> pyval result"
  cls_methods :: "(string \<times> (params \<Rightarrow> pyval result)) list"
  cls_fields :: "string list"

text \<open>\<open>class_object.m(**params)\<close> for a method the code names itself.\<close>

definition cls_call :: "pyclass \<Rightarrow> string \<Rightarrow> params \<Rightarrow> pyval result" where
  "cls_call c m ps =
     (case map_of (cls_methods c) m of
        Some f \<Rightarrow> f ps
      | None \<Rightarrow> Inl (PyExc ''AttributeError'' m))"

text \<open>
  The collaborators of the strategies: functions, tables and constants of other modules
  and of libraries, taken as parameters.
  \<^item> \<open>json_loads\<close>: \<open>json.loads\<close> on a text.
  \<^item> \<open>set_iter\<close>: the order in which a set is iterated (\<open>list(s)\<close>, \<open>for x in s\<close>), which
    Python leaves open.
  \<^item> \<open>str_of\<close>: \<open>str(v)\<close>, as an f-string formats a value that is not a text.
  \<^item> \<open>unicode_escape\<close>: \<open>s.encode().decode('unicode-escape')\<close>.
  \<^item> \<open>Language\<close>: the constructor of langchain's enumeration \<open>Language\<close>.
  \<^item> \<open>split_documents splitter docs\<close>: \<open>splitter.split_documents(docs)\<close>.
  \<^item> \<open>loader_load loader\<close>: \<open>loader.load()\<close>, a list of documents.
  \<^item> \<open>file_access\<close>: \<open>settings.get_from_db('file_access')\<close>.
  \<^item> \<open>as_retriever obj kwargs\<close>: \<open>obj.as_retriever(**kwargs)\<close>.
  \<^item> \<open>VectorStoreFilterRetriever\<close>: the constructor of that class, on its keyword
    arguments.
  \<^item> \<open>from_agent_and_tools agent tools\<close>:
    \<open>AgentExecutor.from_agent_and_tools(agent=agent, tools=tools, handle_parsing_errors=True)\<close>.
  \<^item> \<open>is_BaseTool v\<close>: \<open>isinstance(v, BaseTool)\<close>.
  \<^item> \<open>chain_from_method_nodes\<close> and its siblings: the table \<open>from_method_nodes\<close> of each
    creator, from node type to method name.
  \<^item> \<open>judge_knowledge_permission\<close>, \<open>get_list_by_ids\<close>: the two queries of \<open>KnowledgeDao\<close>,
    each a list of knowledge records.
  \<^item> \<open>decide_embeddings\<close>, \<open>FakeEmbedding\<close> (the object \<open>FakeEmbedding()\<close>),
    \<open>vecstore_initializer\<close> (from class name to initializer).
  \<^item> \<open>handle_node_type\<close>, \<open>handle_format_kwargs\<close>, \<open>handle_partial_variables\<close>: the
    helpers of the prompt strategy.
  \<^item> \<open>PRESET_QUESTION\<close>, \<open>NODE_ID_DICT\<close>: the constants of those names, parameter keys.
  \<^item> \<open>obj_text obj\<close>: \<open>obj.text()\<close>; \<open>file_download\<close>: the function of that name, a pair.
  \<^item> \<open>load_file_into_dict\<close>, \<open>get_function\<close>, \<open>eval_function\<close> (\<open>validate.eval_function\<close>),
    \<open>FieldInfo\<close> (on the dictionary of its keyword arguments), \<open>create_model name fields\<close>:
    the helpers of the tool strategy.
  \<^item> \<open>is_BaseToolkit v\<close>: \<open>isinstance(v, BaseToolkit)\<close>; \<open>get_tools kit\<close>: \<open>kit.get_tools()\<close>.
  \<^item> \<open>is_openai_v1\<close>: \<open>is_openai_v1()\<close>; \<open>httpx_Client p\<close>: \<open>httpx.Client(proxies=p)\<close>, and
    likewise \<open>httpx_AsyncClient\<close>; \<open>SecretStr\<close>: the constructor of that class;
    \<open>OpenAI_images kw\<close>: \<open>openai.OpenAI(**kw).images\<close>, and likewise \<open>AsyncOpenAI_images\<close>;
    \<open>langchain_bug_openv1\<close>, \<open>initialize_vertexai\<close>: the functions of those names.
  \<^item> \<open>str_isdigit s\<close>: \<open>s.isdigit()\<close>; \<open>int_of_str s\<close>: \<open>int(s)\<close>.
  \<^item> \<open>llm_request\<close>: \<open>settings.get_from_db('llm_request')\<close>.
  \<^item> \<open>eval_custom_component_code\<close>: the class compiled from a source text;
    \<open>component_build comp kw\<close>: \<open>comp.build(**kw)\<close>, awaited when it is a coroutine;
    \<open>custom_repr comp\<close>: \<open>comp.custom_repr()\<close>.
  \<^item> \<open>CUSTOM_NODES\<close>: the table of that name, from node type to a class (its hook
    \<open>initialize\<close>, when it has one, is among its methods); \<open>import_by_type\<close>: the resolver.
\<close>

record env =
  json_loads :: "string \<Rightarrow> pyval result"
  set_iter :: "pyval fset \<Rightarrow> pyval list"
  str_of :: "pyval \<Rightarrow> string"
  unicode_escape :: "string \<Rightarrow> string result"
  Language :: "pyval \<Rightarrow> pyval result"
  split_documents :: "pyval \<Rightarrow> pyval \<Rightarrow> pyval result"
  loader_load :: "pyval \<Rightarrow> pyval list result"
  file_access :: pyval
  as_retriever :: "pyval \<Rightarrow> params \<Rightarrow> pyval result"
  VectorStoreFilterRetriever :: "params \<Rightarrow> pyval result"
  from_agent_and_tools :: "pyval \<Rightarrow> pyval \<Rightarrow> pyval result"
  is_BaseTool :: "pyval \<Rightarrow> bool"
  chain_from_method_nodes :: "(string \<times> string) list"
  agent_from_method_nodes :: "(string \<times> string) list"
  wrapper_from_method_nodes :: "(string \<times> string) list"
  output_parser_from_method_nodes :: "(string \<times> string) list"
  retriever_from_method_nodes :: "(string \<times> string) list"
  judge_knowledge_permission :: "pyval \<Rightarrow> pyval list \<Rightarrow> pyval list result"
  get_list_by_ids :: "pyval list \<Rightarrow> pyval list result"
  decide_embeddings :: "pyval \<Rightarrow> pyval result"
  FakeEmbedding :: pyval
  vecstore_initializer :: "(string \<times> (pyclass \<Rightarrow> params \<Rightarrow> pyval \<Rightarrow> pyval result)) list"
  handle_node_type :: "string \<Rightarrow> pyclass \<Rightarrow> params \<Rightarrow> (params \<times> pyval) result"
  handle_format_kwargs :: "pyval \<Rightarrow> params \<Rightarrow> pyval result"
  handle_partial_variables :: "pyval \<Rightarrow> pyval \<Rightarrow> pyval result"
  PRESET_QUESTION :: string
  obj_text :: "pyval \<Rightarrow> pyval result"
  file_download :: "pyval \<Rightarrow> (pyval \<times> pyval) result"
  load_file_into_dict :: "pyval \<Rightarrow> pyval result"
  get_function :: "pyval \<Rightarrow> pyval result"
  eval_function :: "string \<Rightarrow> pyval result"
  FieldInfo :: "pyval \<Rightarrow> pyval result"
  create_model :: "pyval \<Rightarrow> (pyval \<times> pyval) list \<Rightarrow> pyval result"
  is_BaseToolkit :: "pyval \<Rightarrow> bool"
  get_tools :: "pyval \<Rightarrow> pyval result"
  is_openai_v1 :: bool
  httpx_Client :: "pyval \<Rightarrow> pyval result"
  httpx_AsyncClient :: "pyval \<Rightarrow> pyval result"
  SecretStr :: "pyval \<Rightarrow> pyval result"
  initialize_vertexai :: "pyclass \<Rightarrow> params \<Rightarrow> pyval result"
  str_isdigit :: "string \<Rightarrow> bool"
  int_of_str :: "string \<Rightarrow> pyval result"
  llm_request :: pyval
  eval_custom_component_code :: "pyval \<Rightarrow> pyclass result"
  component_build :: "pyval \<Rightarrow> params \<Rightarrow> pyval result"
  custom_repr :: "pyval \<Rightarrow> pyval result"
  langchain_bug_openv1 :: "params \<Rightarrow> params result"
  OpenAI_images :: "params \<Rightarrow> pyval result"
  AsyncOpenAI_images :: "params \<Rightarrow> pyval result"
  NODE_ID_DICT :: string
  CUSTOM_NODES :: "(string \<times> pyclass) list"
  import_by_type :: "string \<Rightarrow> string \<Rightarrow> pyclass result"

section \<open>Text splitters\<close>

definition textsplitter_msg :: string where
  "textsplitter_msg =
     ''The source you provided did not load correctly or was empty.'' @
     ''Try changing the chunk_size of the Text Splitter.''"

text \<open>
  \<open>instantiate_textsplitter\<close>. \<open>params.pop('documents')\<close> raises \<open>KeyError\<close> when the key
  is absent, which the \<open>except\<close> clause turns into the \<open>ValueError\<close>; documents that are
  present but empty return the empty list from inside the \<open>try\<close>.
\<close>

definition instantiate_textsplitter :: "env \<Rightarrow> pyclass \<Rightarrow> params \<Rightarrow> pyval result" where
  "instantiate_textsplitter E class_object params =
     (case map_of params ''documents'' of
        None \<Rightarrow> Inl (PyExc ''ValueError'' textsplitter_msg)
      | Some documents \<Rightarrow>
          let params = AList.delete ''documents'' params in
          if \<not> py_truthy documents then Inr (PList [])
          else
            bindE
              (if map_of params ''separator_type'' = Some (PStr ''Text'')
                  \<or> map_of params ''separator_type'' = None
               then
                 let params = AList.delete ''separator_type'' params in
                 bindE
                   (case map_of params ''separators'' of
                      None \<Rightarrow> Inr params
                    | Some (PStr s) \<Rightarrow>
                        bindE (unicode_escape E s)
                          (\<lambda>s'. Inr (AList.update ''separators'' (PStr s') params))
                    | Some v \<Rightarrow> Inl (PyExc ''AttributeError'' ''encode''))
                   (cls_init class_object)
               else
                 let language = dict_get params ''separator_type'' PNone;
                     params = AList.delete ''separator_type'' params in
                 bindE (Language E language)
                   (\<lambda>lang.
                      let params = AList.update ''language'' lang params;
                          params = AList.delete ''separators'' params
                      in cls_call class_object ''from_language'' params))
              (\<lambda>text_splitter. split_documents E text_splitter documents))"

section \<open>Document loaders\<close>

text \<open>
  The loop over the loaded documents: a document whose metadata is empty gets the supplied
  metadata, any other has the supplied metadata stored into its own with \<open>update\<close>.
\<close>

definition merge_metadata :: "pyval \<Rightarrow> pyval \<Rightarrow> pyval result" where
  "merge_metadata metadata doc =
     bindE (py_getattr doc ''metadata'')
       (\<lambda>m. if \<not> py_truthy m then py_setattr doc ''metadata'' metadata
             else (case m of
                     PDict kvs \<Rightarrow>
                       bindE (dict_update kvs metadata)
                         (\<lambda>kvs'. py_setattr doc ''metadata'' (PDict kvs'))
                   | _ \<Rightarrow> Inl (PyExc ''AttributeError'' ''update'')))"

fun merge_all :: "pyval \<Rightarrow> pyval list \<Rightarrow> pyval list result" where
  "merge_all metadata [] = Inr []"
| "merge_all metadata (doc # docs) =
     bindE (merge_metadata metadata doc)
       (\<lambda>doc'. bindE (merge_all metadata docs) (\<lambda>docs'. Inr (doc' # docs')))"

definition metadata_msg :: string where
  "metadata_msg = ''The metadata you provided is not a valid JSON string.''"

text \<open>
  \<open>instantiate_documentloader\<close>, in the order of the source. Its steps:
  \<^item> \<open>loader_file_filter\<close>: the text \<open>file_filter\<close> is replaced by a predicate, the closure
    \<open>PFunc ''file_filter''\<close> over the list \<open>extensions\<close>;
  \<^item> \<open>loader_file_path\<close>: a file path given as a list is replaced by its first item, the
    second item is the file name;
  \<^item> \<open>loader_metadata\<close>: metadata that is a non-empty text is decoded, and a
    \<open>JSONDecodeError\<close> becomes the \<open>ValueError\<close>;
  \<^item> the early return on an empty file path;
  \<^item> \<open>loader_docs\<close>: the load, and the merge of the metadata.
\<close>

definition loader_file_filter :: "params \<Rightarrow> params result" where
  "loader_file_filter params =
     (case map_of params ''file_filter'' of
        None \<Rightarrow> Inr params
      | Some (PStr file_filter) \<Rightarrow>
          let params = AList.delete ''file_filter'' params;
              extensions = split_comma file_filter
          in Inr (AList.update ''file_filter''
                    (PFunc ''file_filter'' [PList (map PStr extensions)]) params)
      | Some v \<Rightarrow> Inl (PyExc ''AttributeError'' ''split''))"

definition loader_file_path :: "pyclass \<Rightarrow> params \<Rightarrow> params result" where
  "loader_file_path class_object params =
     (case map_of params ''file_path'' of
        Some (PList file_path) \<Rightarrow>
          bindE (seq_index file_path 1)
            (\<lambda>file_name.
          bindE (seq_index file_path 0)
            (\<lambda>first.
               let params = AList.update ''file_path'' first params in
               Inr (if cls_name class_object = ''ElemUnstructuredLoaderV0''
                    then AList.update ''file_name'' file_name params
                    else params)))
      | _ \<Rightarrow> Inr params)"

definition loader_metadata :: "env \<Rightarrow> pyval \<Rightarrow> pyval result" where
  "loader_metadata E metadata =
     (case metadata of
        PStr s \<Rightarrow>
          if s \<noteq> [] then
            (case json_loads E s of
               Inl e \<Rightarrow>
                 if exc_type e = ''JSONDecodeError''
                 then Inl (PyExc ''ValueError'' metadata_msg)
                 else Inl e
             | Inr v \<Rightarrow> Inr v)
          else Inr metadata
      | _ \<Rightarrow> Inr metadata)"

definition loader_docs :: "env \<Rightarrow> pyclass \<Rightarrow> params \<Rightarrow> pyval \<Rightarrow> pyval result" where
  "loader_docs E class_object params metadata =
     bindE (cls_init class_object params)
       (\<lambda>loader.
     bindE (loader_load E loader)
       (\<lambda>docs.
          if py_truthy metadata
          then bindE (merge_all metadata docs) (\<lambda>docs'. Inr (PList docs'))
          else Inr (PList docs)))"

definition instantiate_documentloader :: "env \<Rightarrow> pyclass \<Rightarrow> params \<Rightarrow> pyval result" where
  "instantiate_documentloader E class_object params =
     bindE (loader_file_filter params)
       (\<lambda>params.
     bindE (loader_file_path class_object params)
       (\<lambda>params.
     let metadata = dict_get params ''metadata'' PNone;
         params = AList.delete ''metadata'' params in
     bindE (loader_metadata E metadata)
       (\<lambda>metadata.
     if map_of params ''file_path'' \<noteq> None
          \<and> \<not> py_truthy (dict_get params ''file_path'' PNone)
     then Inr (PList [])
     else loader_docs E class_object params metadata)))"

section \<open>Iteration and sets\<close>

text \<open>\<open>for x in v\<close>: the items of a list or tuple, the characters of a text, the keys of a
  dictionary, the elements of a set in the order \<open>set_iter\<close> gives them.\<close>

definition py_iter :: "env \<Rightarrow> pyval \<Rightarrow> pyval list result" where
  "py_iter E v =
     (case v of
        PList xs \<Rightarrow> Inr xs
      | PTuple xs \<Rightarrow> Inr xs
      | PStr s \<Rightarrow> Inr (map (\<lambda>ch. PStr [ch]) s)
      | PDict kvs \<Rightarrow> Inr (map fst kvs)
      | PSet S \<Rightarrow> Inr (set_iter E S)
      | _ \<Rightarrow> Inl (PyExc ''TypeError'' ''object is not iterable''))"

text \<open>\<open>set(v)\<close>: the set of the items of an iterable, all of which must be hashable.
  \<open>set_items\<close> gives the elements, \<open>py_set\<close> the set as a value.\<close>

definition set_of_items :: "pyval list \<Rightarrow> pyval fset result" where
  "set_of_items xs =
     (if list_all py_hashable xs then Inr (fset_of_list xs)
      else Inl (PyExc ''TypeError'' ''unhashable type''))"

definition set_items :: "pyval \<Rightarrow> pyval fset result" where
  "set_items v =
     (case v of
        PList xs \<Rightarrow> set_of_items xs
      | PTuple xs \<Rightarrow> set_of_items xs
      | PStr s \<Rightarrow> Inr (fset_of_list (map (\<lambda>ch. PStr [ch]) s))
      | PDict kvs \<Rightarrow> Inr (fset_of_list (map fst kvs))
      | PSet S \<Rightarrow> Inr S
      | _ \<Rightarrow> Inl (PyExc ''TypeError'' ''object is not iterable''))"

definition py_set :: "pyval \<Rightarrow> pyval result" where
  "py_set v = bindE (set_items v) (\<lambda>S. Inr (PSet S))"

text \<open>\<open>d.get(k, default)\<close> on a value that should be a dictionary.\<close>

definition py_get :: "pyval \<Rightarrow> pyval \<Rightarrow> pyval \<Rightarrow> pyval result" where
  "py_get d k dflt =
     (case d of
        PDict kvs \<Rightarrow>
          if py_hashable k
          then Inr (case map_of kvs k of Some v \<Rightarrow> v | None \<Rightarrow> dflt)
          else Inl (PyExc ''TypeError'' ''unhashable type'')
      | _ \<Rightarrow> Inl (PyExc ''AttributeError'' ''get''))"

section \<open>Parameter normalization\<close>

text \<open>\<open>convert_params_to_sets\<close>: the two special-token parameters become sets, the key
  \<open>input_node\<close> is dropped.\<close>

definition param_to_set :: "string \<Rightarrow> params \<Rightarrow> params result" where
  "param_to_set key params =
     (case map_of params key of
        None \<Rightarrow> Inr params
      | Some v \<Rightarrow> bindE (py_set v) (\<lambda>s. Inr (AList.update key s params)))"

definition convert_params_to_sets :: "params \<Rightarrow> params result" where
  "convert_params_to_sets params =
     bindE (param_to_set ''allowed_special'' params)
       (\<lambda>params.
     bindE (param_to_set ''disallowed_special'' params)
       (\<lambda>params.
     Inr (if map_of params ''input_node'' \<noteq> None
          then AList.delete ''input_node'' params
          else params)))"

text \<open>
  \<open>convert_kwargs\<close>: \<open>kwargs_keys\<close> are the keys whose name contains \<open>kwargs\<close> or
  \<open>config\<close>, in the order of the dictionary; the loop decodes the value of each when it
  is a text.
\<close>

definition kwargs_keys :: "params \<Rightarrow> string list" where
  "kwargs_keys params =
     filter (\<lambda>key. str_contains ''kwargs'' key \<or> str_contains ''config'' key) (map fst params)"

fun decode_keys :: "env \<Rightarrow> string list \<Rightarrow> params \<Rightarrow> params result" where
  "decode_keys E [] params = Inr params"
| "decode_keys E (key # keys) params =
     (case map_of params key of
        Some (PStr s) \<Rightarrow>
          bindE (json_loads E s) (\<lambda>v. decode_keys E keys (AList.update key v params))
      | _ \<Rightarrow> decode_keys E keys params)"

definition convert_kwargs :: "env \<Rightarrow> params \<Rightarrow> params result" where
  "convert_kwargs E params = decode_keys E (kwargs_keys params) params"

text \<open>The two normalization steps, as \<open>instantiate_class\<close> applies them.\<close>

definition normalize :: "env \<Rightarrow> params \<Rightarrow> params result" where
  "normalize E params = bindE (convert_params_to_sets params) (convert_kwargs E)"

section \<open>Input and output nodes\<close>

text \<open>\<open>chains[index].input_keys[0]\<close>.\<close>

definition first_input_key :: "pyval \<Rightarrow> pyval result" where
  "first_input_key chain =
     bindE (py_getattr chain ''input_keys'') (\<lambda>keys. py_getitem keys (PInt 0))"

text \<open>The dictionary display \<open>{key: v}\<close>; its key must be hashable.\<close>

definition input_dict :: "pyval \<Rightarrow> pyval \<Rightarrow> pyval result" where
  "input_dict key v =
     (if py_hashable key then Inr (PDict [(key, v)])
      else Inl (PyExc ''TypeError'' ''unhashable type''))"

text \<open>
  The inner loop of the Report branch, over the items \<open>node_id\<close> of a preset that is a
  list: each item gives a copy of \<open>chain_obj\<close> with \<open>node_id[0]\<close> under \<open>node_id\<close> and
  \<open>{first input key: node_id[1]}\<close> under \<open>input\<close>.
\<close>

fun report_expand :: "pyval \<Rightarrow> pyval list \<Rightarrow> pyval list result" where
  "report_expand chain [] = Inr []"
| "report_expand chain (node_id # rest) =
     bindE (py_getitem node_id (PInt 0))
       (\<lambda>target.
     bindE (first_input_key chain)
       (\<lambda>key.
     bindE (py_getitem node_id (PInt 1))
       (\<lambda>question.
     bindE (input_dict key question)
       (\<lambda>inp.
     bindE (report_expand chain rest)
       (\<lambda>more.
          Inr (PDict [(PStr ''object'', chain), (PStr ''node_id'', target), (PStr ''input'', inp)]
               # more))))))"

text \<open>
  One round of the outer loop, for the chain at \<open>index\<close> and its node id \<open>id\<close>: the
  entries it appends to \<open>chain_list\<close>.
\<close>

definition report_entry :: "pyval \<Rightarrow> pyval \<Rightarrow> nat \<Rightarrow> pyval \<Rightarrow> pyval list result" where
  "report_entry chain_objs preset_question index nid =
     bindE (py_getitem chain_objs (PInt (int index)))
       (\<lambda>chain.
     bindE (py_contains preset_question nid)
       (\<lambda>present.
          if present then
            bindE (py_getitem preset_question nid)
              (\<lambda>preset.
                 case preset of
                   PList items \<Rightarrow> report_expand chain items
                 | _ \<Rightarrow>
                     bindE (py_getitem preset (PInt 0))
                       (\<lambda>target.
                     bindE (first_input_key chain)
                       (\<lambda>key.
                     bindE (py_getitem preset (PInt 1))
                       (\<lambda>question.
                     bindE (input_dict key question)
                       (\<lambda>inp.
                        Inr [PDict [(PStr ''object'', chain), (PStr ''node_id'', target),
                                    (PStr ''input'', inp)]])))))
          else
            bindE (first_input_key chain)
              (\<lambda>key.
            bindE (input_dict key (PStr ''start''))
              (\<lambda>inp. Inr [PDict [(PStr ''object'', chain), (PStr ''input'', inp)]]))))"

fun report_chains :: "pyval \<Rightarrow> pyval \<Rightarrow> nat \<Rightarrow> pyval list \<Rightarrow> pyval list result" where
  "report_chains chain_objs preset_question index [] = Inr []"
| "report_chains chain_objs preset_question index (nid # nids) =
     bindE (report_entry chain_objs preset_question index nid)
       (\<lambda>entries.
     bindE (report_chains chain_objs preset_question (Suc index) nids)
       (\<lambda>more. Inr (entries @ more)))"

text \<open>The loop over \<open>variable_node_id\<close>: \<open>{'node_id': id, 'input': variable[index]}\<close>.\<close>

fun report_variables :: "pyval \<Rightarrow> nat \<Rightarrow> pyval list \<Rightarrow> pyval list result" where
  "report_variables variable index [] = Inr []"
| "report_variables variable index (nid # nids) =
     bindE (py_getitem variable (PInt (int index)))
       (\<lambda>v.
     bindE (report_variables variable (Suc index) nids)
       (\<lambda>more. Inr (PDict [(PStr ''node_id'', nid), (PStr ''input'', v)] # more)))"

text \<open>The parameters the Report branch hands to the class.\<close>

definition report_params :: "env \<Rightarrow> params \<Rightarrow> pyval \<Rightarrow> params result" where
  "report_params E params id_dict =
     (let preset_question = dict_get params (PRESET_QUESTION E) (PDict []);
          params = AList.delete (PRESET_QUESTION E) params;
          chain_objs = dict_get params ''chains'' (PList [])
      in
      bindE (py_get id_dict (PStr ''chains'') (PList []))
        (\<lambda>chains_idlist.
      bindE (py_iter E chains_idlist)
        (\<lambda>nids.
      bindE (report_chains chain_objs preset_question 0 nids)
        (\<lambda>chain_list.
           let params = AList.update ''chains'' (PList chain_list) params;
               variable = dict_get params ''variables'' PNone
           in
           bindE (py_get id_dict (PStr ''variables'') PNone)
             (\<lambda>got.
                let variable_node_id = (if py_truthy got then got else PList []);
                    params = AList.update ''variables'' (PList []) params
                in
                bindE (py_iter E variable_node_id)
                  (\<lambda>vids.
                bindE (report_variables variable 0 vids)
                  (\<lambda>vs. Inr (AList.update ''variables'' (PList vs) params))))))))"

definition instantiate_input_output ::
    "env \<Rightarrow> string \<Rightarrow> pyclass \<Rightarrow> params \<Rightarrow> pyval \<Rightarrow> pyval result" where
  "instantiate_input_output E node_type class_object params id_dict =
     (if node_type = ''Report'' then
        bindE (report_params E params id_dict) (cls_init class_object)
      else if node_type = ''InputFileNode'' then
        bindE (cls_init class_object params)
          (\<lambda>obj.
        bindE (obj_text E obj)
          (\<lambda>file_path.
             if py_truthy file_path then
               bindE (py_getitem file_path (PInt 0))
                 (\<lambda>ref.
               bindE (file_download E ref)
                 (\<lambda>(file_path, file_name2).
                    if py_truthy file_name2 then Inr (PList [file_path, file_name2])
                    else bindE (py_getitem file_path (PInt 1))
                           (\<lambda>second. Inr (PList [file_path, second]))))
             else Inr (PStr [])))
      else
        bindE
          (case map_of params ''file_path'' of
             None \<Rightarrow> Inr (Some params)
           | Some file_path \<Rightarrow>
               if \<not> py_truthy file_path then Inr None
               else (case file_path of
                       PList items \<Rightarrow>
                         bindE (seq_index items 0)
                           (\<lambda>first. Inr (Some (AList.update ''file_path'' first params)))
                     | _ \<Rightarrow> Inr (Some params)))
          (\<lambda>go. case go of
                   None \<Rightarrow> Inr (PStr [])
                 | Some params \<Rightarrow> bindE (cls_init class_object params) (obj_text E)))"

section \<open>Factory methods\<close>

text \<open>
  The lines shared by the chain, wrapper, output parser and retriever strategies:
  \<^verbatim>\<open>
  if node_type in creator.from_method_nodes:
      method = creator.from_method_nodes[node_type]
      if class_method := getattr(class_object, method, None):
          return class_method(**params)
      raise ValueError(f'Method {method} not found in {class_object}')
  return class_object(**params)
  \<close>
\<close>

definition build_from_method ::
    "(string \<times> string) list \<Rightarrow> string \<Rightarrow> pyclass \<Rightarrow> params \<Rightarrow> pyval result" where
  "build_from_method from_method_nodes node_type class_object params =
     (case map_of from_method_nodes node_type of
        Some method \<Rightarrow>
          (case map_of (cls_methods class_object) method of
             Some class_method \<Rightarrow> class_method params
           | None \<Rightarrow>
               Inl (PyExc ''ValueError''
                      (''Method '' @ method @ '' not found in '' @ cls_repr class_object)))
      | None \<Rightarrow> cls_init class_object params)"

section \<open>Chains\<close>

text \<open>The access address \<open>settings.get_from_db('file_access') + f'?username={user_name}'\<close>.\<close>

definition format_value :: "env \<Rightarrow> pyval \<Rightarrow> string" where
  "format_value E v = (case v of PStr s \<Rightarrow> s | _ \<Rightarrow> str_of E v)"

definition access_url :: "env \<Rightarrow> pyval \<Rightarrow> pyval result" where
  "access_url E user_name =
     (case file_access E of
        PStr base \<Rightarrow> Inr (PStr (base @ ''?username='' @ format_value E user_name))
      | _ \<Rightarrow> Inl (PyExc ''TypeError'' ''unsupported operand type(s) for +''))"

text \<open>Lines 325 to 336: a retriever parameter that can be turned into a retriever.\<close>

definition chains_retriever :: "env \<Rightarrow> params \<Rightarrow> params result" where
  "chains_retriever E params =
     (case map_of params ''retriever'' of
        None \<Rightarrow> Inr params
      | Some retriever \<Rightarrow>
          let user_name = dict_get params ''user_name'' (PStr []);
              params = AList.delete ''user_name'' params
          in
          if py_hasattr retriever ''as_retriever'' then
            bindE
              (if py_truthy (file_access E) then
                 bindE (access_url E user_name)
                   (\<lambda>url. VectorStoreFilterRetriever E
                            [(''vectorstore'', retriever), (''access_url'', url)])
               else as_retriever E retriever [])
              (\<lambda>vectorstore. Inr (AList.update ''retriever'' vectorstore params))
          else Inr params)"

definition chain_order_msg :: string where
  "chain_order_msg =
     ''chain_order '' @
     [CHR 0xE4, CHR 0xB8, CHR 0x8D, CHR 0xE6, CHR 0x98, CHR 0xAF, CHR 0xE6, CHR 0xA0, CHR 0x87,
      CHR 0xE5, CHR 0x87, CHR 0x86, CHR 0xE6, CHR 0x95, CHR 0xB0, CHR 0xE7, CHR 0xBB, CHR 0x84]"

text \<open>
  \<open>{id: index for index, id in enumerate(ids)}\<close>: each id is stored with its position, a
  repeated id keeps its last position.
\<close>

fun index_dict :: "nat \<Rightarrow> pyval list \<Rightarrow> (pyval \<times> pyval) list \<Rightarrow> (pyval \<times> pyval) list result" where
  "index_dict index [] d = Inr d"
| "index_dict index (x # xs) d =
     (if py_hashable x then index_dict (Suc index) xs (AList.update x (PInt (int index)) d)
      else Inl (PyExc ''TypeError'' ''unhashable type''))"

text \<open>\<open>[chains_origin[chains_dict.get(id)] for id in chain_order]\<close>.\<close>

fun pick_chains :: "pyval \<Rightarrow> (pyval \<times> pyval) list \<Rightarrow> pyval list \<Rightarrow> pyval list result" where
  "pick_chains chains_origin chains_dict [] = Inr []"
| "pick_chains chains_origin chains_dict (x # xs) =
     bindE (py_get (PDict chains_dict) x PNone)
       (\<lambda>index.
     bindE (py_getitem chains_origin index)
       (\<lambda>chain.
     bindE (pick_chains chains_origin chains_dict xs)
       (\<lambda>more. Inr (chain # more))))"

text \<open>
  Lines 338 to 347, for the node type \<open>SequentialChain\<close>. Whatever goes wrong in
  \<open>json.loads(params.pop('chain_order'))\<close> (a missing key, a value that is not a text, a
  malformed text) is raised as the \<open>Exception\<close> of the source.
\<close>

definition chains_sequential :: "env \<Rightarrow> params \<Rightarrow> pyval \<Rightarrow> params result" where
  "chains_sequential E params id_dict =
     (let params = AList.delete ''input_node'' params in
      case map_of params ''chain_order'' of
        Some (PStr s) \<Rightarrow>
          (case json_loads E s of
             Inl e \<Rightarrow> Inl (PyExc ''Exception'' chain_order_msg)
           | Inr chain_order \<Rightarrow>
               let params = AList.delete ''chain_order'' params;
                   chains_origin = dict_get params ''chains'' PNone
               in
               bindE (py_get id_dict (PStr ''chains'') PNone)
                 (\<lambda>idlist.
               bindE (py_iter E idlist)
                 (\<lambda>nids.
               bindE (index_dict 0 nids [])
                 (\<lambda>chains_dict.
               bindE (py_iter E chain_order)
                 (\<lambda>order.
               bindE (pick_chains chains_origin chains_dict order)
                 (\<lambda>picked. Inr (AList.update ''chains'' (PList picked) params)))))))
      | _ \<Rightarrow> Inl (PyExc ''Exception'' chain_order_msg))"

text \<open>Lines 349 and 350: a textual \<open>headers\<close> parameter is decoded.\<close>

definition chains_headers :: "env \<Rightarrow> params \<Rightarrow> params result" where
  "chains_headers E params =
     (case map_of params ''headers'' of
        Some (PStr s) \<Rightarrow> bindE (json_loads E s) (\<lambda>v. Inr (AList.update ''headers'' v params))
      | _ \<Rightarrow> Inr params)"

text \<open>Lines 351 to 360, for the node type \<open>ConversationalRetrievalChain\<close>.\<close>

definition chains_conversational :: "params \<Rightarrow> params" where
  "chains_conversational params =
     (let params = AList.update ''get_chat_history'' (PFunc ''str'' []) params;
          prompt = dict_get params ''combine_docs_chain_kwargs'' PNone;
          params = AList.delete ''combine_docs_chain_kwargs'' params;
          document_prompt = dict_get params ''document_prompt'' PNone;
          params = AList.delete ''document_prompt'' params;
          kwargs = [(PStr ''prompt'', prompt), (PStr ''document_prompt'', document_prompt)]
      in AList.update ''combine_docs_chain_kwargs''
           (PDict (filter (\<lambda>(k, v). v \<noteq> PNone) kwargs)) params)"

text \<open>
  Lines 362 to 372, for the node types \<open>MultiPromptChain\<close> and \<open>MultiRuleChain\<close>: the
  i-th name of \<open>destination_chain_name\<close> is paired with the i-th chain of \<open>LLMChains\<close>.
\<close>

fun destination_chains :: "pyval \<Rightarrow> nat \<Rightarrow> pyval list \<Rightarrow> (pyval \<times> pyval) list
    \<Rightarrow> (pyval \<times> pyval) list result" where
  "destination_chains llm_chains i [] d = Inr d"
| "destination_chains llm_chains i (name # names) d =
     bindE (py_getitem llm_chains (PInt (int i)))
       (\<lambda>chain.
          if py_hashable name
          then destination_chains llm_chains (Suc i) names (AList.update name chain d)
          else Inl (PyExc ''TypeError'' ''unhashable type''))"

definition chains_multi :: "params \<Rightarrow> params result" where
  "chains_multi params =
     (case map_of params ''destination_chain_name'' of
        None \<Rightarrow> Inl (PyExc ''KeyError'' ''destination_chain_name'')
      | Some destination_chain_name \<Rightarrow>
          (case map_of params ''LLMChains'' of
             None \<Rightarrow> Inl (PyExc ''KeyError'' ''LLMChains'')
           | Some llm_chains \<Rightarrow>
               (case destination_chain_name of
                  PDict items \<Rightarrow>
                    bindE (destination_chains llm_chains 0 (map snd items) [])
                      (\<lambda>destination_chain.
                         let params = AList.delete ''LLMChains'' params;
                             params = AList.delete ''destination_chain_name'' params
                         in Inr (AList.update ''destination_chains''
                                   (PDict destination_chain) params))
                | _ \<Rightarrow> Inl (PyExc ''AttributeError'' ''items''))))"

text \<open>\<open>chains_params\<close> is the part of \<open>instantiate_chains\<close> before the factory-method
  lines: the parameters handed to the class.\<close>

definition chains_params :: "env \<Rightarrow> string \<Rightarrow> params \<Rightarrow> pyval \<Rightarrow> params result" where
  "chains_params E node_type params id_dict =
     bindE (chains_retriever E params)
       (\<lambda>params.
     bindE (if node_type = ''SequentialChain'' then chains_sequential E params id_dict
            else Inr params)
       (\<lambda>params.
     bindE (chains_headers E params)
       (\<lambda>params.
     bindE (Inr (if node_type = ''ConversationalRetrievalChain''
                 then chains_conversational params else params))
       (\<lambda>params.
          if node_type = ''MultiPromptChain'' \<or> node_type = ''MultiRuleChain''
          then chains_multi params
          else Inr params))))"

definition instantiate_chains ::
    "env \<Rightarrow> string \<Rightarrow> pyclass \<Rightarrow> params \<Rightarrow> pyval \<Rightarrow> pyval result" where
  "instantiate_chains E node_type class_object params id_dict =
     bindE (chains_params E node_type params id_dict)
       (build_from_method (chain_from_method_nodes E) node_type class_object)"

section \<open>Agents\<close>

text \<open>\<open>[tool.name for tool in allowed_tools]\<close>.\<close>

fun tool_names :: "pyval list \<Rightarrow> pyval list result" where
  "tool_names [] = Inr []"
| "tool_names (tool # tools) =
     bindE (py_getattr tool ''name'')
       (\<lambda>name. bindE (tool_names tools) (\<lambda>names. Inr (name # names)))"

definition load_agent_executor :: "env \<Rightarrow> pyclass \<Rightarrow> params \<Rightarrow> pyval result" where
  "load_agent_executor E agent_class params =
     (let allowed_tools = dict_get params ''allowed_tools'' (PList []) in
      case map_of params ''llm_chain'' of
        None \<Rightarrow> Inl (PyExc ''KeyError'' ''llm_chain'')
      | Some llm_chain \<Rightarrow>
          let allowed_tools =
                (if \<not> (isinstance_list allowed_tools \<or> isinstance_set allowed_tools)
                    \<and> is_BaseTool E allowed_tools
                 then PList [allowed_tools] else allowed_tools)
          in
          bindE (py_iter E allowed_tools)
            (\<lambda>tools.
          bindE (tool_names tools)
            (\<lambda>names.
          bindE (cls_init agent_class
                   [(''allowed_tools'', PList names), (''llm_chain'', llm_chain)])
            (\<lambda>agent. from_agent_and_tools E agent allowed_tools))))"

text \<open>
  \<open>instantiate_agent\<close>. When the table names a method and the class has it, the method
  builds the agent; in every other case, also when the table names a method the class
  does not have, \<open>load_agent_executor\<close> builds it.
\<close>

definition instantiate_agent :: "env \<Rightarrow> string \<Rightarrow> pyclass \<Rightarrow> params \<Rightarrow> pyval result" where
  "instantiate_agent E node_type class_object params =
     (case map_of (agent_from_method_nodes E) node_type of
        Some method \<Rightarrow>
          (case map_of (cls_methods class_object) method of
             Some class_method \<Rightarrow>
               bindE (class_method params)
                 (\<lambda>agent.
                    let tools = dict_get params ''tools'' (PList [])
                    in from_agent_and_tools E agent tools)
           | None \<Rightarrow> load_agent_executor E class_object params)
      | None \<Rightarrow> load_agent_executor E class_object params)"

section \<open>Wrappers, output parsers, retrievers\<close>

definition instantiate_output_parser ::
    "env \<Rightarrow> string \<Rightarrow> pyclass \<Rightarrow> params \<Rightarrow> pyval result" where
  "instantiate_output_parser E node_type class_object params =
     build_from_method (output_parser_from_method_nodes E) node_type class_object params"

text \<open>\<open>instantiate_retriever\<close>: every parameter whose name contains \<open>retriever\<close> and whose
  value can be turned into a retriever is replaced, in the order of the dictionary.\<close>

fun retriever_values :: "env \<Rightarrow> params \<Rightarrow> params result" where
  "retriever_values E [] = Inr []"
| "retriever_values E ((key, v) # rest) =
     bindE
       (if str_contains ''retriever'' key \<and> py_hasattr v ''as_retriever''
        then as_retriever E v [] else Inr v)
       (\<lambda>v'. bindE (retriever_values E rest) (\<lambda>rest'. Inr ((key, v') # rest')))"

definition instantiate_retriever ::
    "env \<Rightarrow> string \<Rightarrow> pyclass \<Rightarrow> params \<Rightarrow> pyval result" where
  "instantiate_retriever E node_type class_object params =
     bindE (retriever_values E params)
       (build_from_method (retriever_from_method_nodes E) node_type class_object)"

section \<open>Prompts\<close>

text \<open>
  Lines 400 to 410 of \<open>instantiate_prompt\<close>. The names of the node-bound variables are the
  keys of \<open>param_id_dict\<close>; \<open>human_input\<close> and the node-bound variables of the prompt are
  sets, listed in the order \<open>set_iter\<close> gives. The list is stored only when it has more
  than one name: in the nested prompt \<open>prompt.prompt\<close> when there is one with input
  variables, else in the prompt itself.
\<close>

definition dict_keys :: "pyval \<Rightarrow> pyval list result" where
  "dict_keys d =
     (case d of
        PDict kvs \<Rightarrow> Inr (map fst kvs)
      | _ \<Rightarrow> Inl (PyExc ''AttributeError'' ''keys''))"

definition input_variable_set :: "pyval \<Rightarrow> pyval fset result" where
  "input_variable_set prompt = bindE (py_getattr prompt ''input_variables'') set_items"

definition order_input :: "env \<Rightarrow> pyval \<Rightarrow> pyval \<Rightarrow> pyval list result" where
  "order_input E prompt param_id_dict =
     bindE (dict_keys param_id_dict)
       (\<lambda>keys.
          let no_human_input = fset_of_list keys in
     bindE (input_variable_set prompt)
       (\<lambda>declared.
          let human_input = declared |-| no_human_input in
     bindE (input_variable_set prompt)
       (\<lambda>declared'.
          Inr (set_iter E human_input @ set_iter E (declared' |\<inter>| no_human_input)))))"

definition store_order :: "pyval \<Rightarrow> pyval list \<Rightarrow> pyval result" where
  "store_order prompt order =
     (if 1 < length order then
        (if py_hasattr prompt ''prompt''
            \<and> (case py_getattr prompt ''prompt'' of
                  Inr inner \<Rightarrow> py_hasattr inner ''input_variables''
                | Inl e \<Rightarrow> False)
         then
           bindE (py_getattr prompt ''prompt'')
             (\<lambda>inner.
           bindE (py_setattr inner ''input_variables'' (PList order))
             (\<lambda>inner'. py_setattr prompt ''prompt'' inner'))
         else if py_hasattr prompt ''input_variables''
         then py_setattr prompt ''input_variables'' (PList order)
         else Inr prompt)
      else Inr prompt)"

definition instantiate_prompt ::
    "env \<Rightarrow> string \<Rightarrow> pyclass \<Rightarrow> params \<Rightarrow> pyval \<Rightarrow> pyval result" where
  "instantiate_prompt E node_type class_object params param_id_dict =
     bindE (handle_node_type E node_type class_object params)
       (\<lambda>(params, prompt).
     bindE (handle_format_kwargs E prompt params)
       (\<lambda>format_kwargs.
     bindE (if py_truthy format_kwargs
            then handle_partial_variables E prompt format_kwargs
            else Inr prompt)
       (\<lambda>prompt.
     bindE (order_input E prompt param_id_dict)
       (\<lambda>order.
     bindE (store_order prompt order)
       (\<lambda>prompt. Inr (PTuple [prompt, format_kwargs]))))))"


section \<open>Vector stores\<close>

text \<open>\<open>[one['key'] for one in params[col_name]]\<close>.\<close>

fun item_keys :: "pyval list \<Rightarrow> pyval list result" where
  "item_keys [] = Inr []"
| "item_keys (one # rest) =
     bindE (py_getitem one (PStr ''key''))
       (\<lambda>k. bindE (item_keys rest) (\<lambda>ks. Inr (k # ks)))"

definition knowledge_ids :: "env \<Rightarrow> pyval \<Rightarrow> pyval list result" where
  "knowledge_ids E candidates = bindE (py_iter E candidates) item_keys"

text \<open>\<open>name.startswith('partition')\<close>.\<close>

definition startswith_partition :: "string \<Rightarrow> bool" where
  "startswith_partition name = (take 9 name = ''partition'')"

text \<open>
  The loop of the Milvus branch over \<open>knowledge_list\<close>: for each record its collection
  name, the embedding \<open>decide_embeddings(knowledge.model)\<close>, and its partition key (the
  id of the record when the collection name starts with \<open>partition\<close>, else \<open>None\<close>).
\<close>

fun milvus_entries :: "env \<Rightarrow> pyval list \<Rightarrow> (pyval \<times> pyval \<times> pyval) list result" where
  "milvus_entries E [] = Inr []"
| "milvus_entries E (knowledge # rest) =
     bindE (py_getattr knowledge ''collection_name'')
       (\<lambda>name.
     bindE (py_getattr knowledge ''model'')
       (\<lambda>model.
     bindE (decide_embeddings E model)
       (\<lambda>embedding.
     bindE (case name of
              PStr s \<Rightarrow> if startswith_partition s then py_getattr knowledge ''id'' else Inr PNone
            | _ \<Rightarrow> Inl (PyExc ''AttributeError'' ''startswith''))
       (\<lambda>partition_key.
     bindE (milvus_entries E rest)
       (\<lambda>entries. Inr ((name, embedding, partition_key) # entries))))))"

text \<open>\<open>[knowledge.index_name or knowledge.collection_name for knowledge in knowledge_list]\<close>.\<close>

fun index_names :: "pyval list \<Rightarrow> pyval list result" where
  "index_names [] = Inr []"
| "index_names (knowledge # rest) =
     bindE (py_getattr knowledge ''index_name'')
       (\<lambda>index_name.
     bindE (if py_truthy index_name then Inr index_name
            else py_getattr knowledge ''collection_name'')
       (\<lambda>name. bindE (index_names rest) (\<lambda>names. Inr (name # names))))"

text \<open>
  Lines 483 to 515: for the two node types with a permission check the collections of the
  node are replaced by those of the records the directory returns. With
  \<open>_is_check_auth\<close> absent or true the directory is asked what the user may see
  (\<open>judge_knowledge_permission\<close>), else for the records of the ids as they are
  (\<open>get_list_by_ids\<close>). Only the Milvus branch sets an embedding: that of the first
  record, or \<open>FakeEmbedding()\<close> when there is none.
\<close>

definition vectorstore_filter :: "env \<Rightarrow> string \<Rightarrow> pyval \<Rightarrow> params \<Rightarrow> params result" where
  "vectorstore_filter E node_type user_name params =
     (if node_type = ''MilvusWithPermissionCheck''
         \<or> node_type = ''ElasticsearchWithPermissionCheck''
      then
        let col_name = (if node_type = ''ElasticsearchWithPermissionCheck''
                        then ''index_name'' else ''collection_name'')
        in
        case map_of params col_name of
          None \<Rightarrow> Inl (PyExc ''KeyError'' col_name)
        | Some candidates \<Rightarrow>
            bindE (knowledge_ids E candidates)
              (\<lambda>ids.
                 let check = dict_get params ''_is_check_auth'' (PInt 1);
                     params = AList.delete ''_is_check_auth'' params
                 in
            bindE (if py_truthy check then judge_knowledge_permission E user_name ids
                   else get_list_by_ids E ids)
              (\<lambda>knowledge_list.
                 if node_type = ''MilvusWithPermissionCheck'' then
                   bindE (milvus_entries E knowledge_list)
                     (\<lambda>entries.
                        let params = AList.update col_name (PList (map fst entries)) params;
                            params = AList.update ''collection_embeddings''
                                       (PList (map (\<lambda>(n, e, k). e) entries)) params;
                            params = AList.update ''partition_keys''
                                       (PList (map (\<lambda>(n, e, k). k) entries)) params
                        in Inr (AList.update ''embedding''
                                  (case entries of
                                     [] \<Rightarrow> FakeEmbedding E
                                   | (n, e, k) # others \<Rightarrow> e) params))
                 else
                   bindE (index_names knowledge_list)
                     (\<lambda>names. Inr (AList.update col_name (PList names) params))))
      else Inr params)"

text \<open>The construction: a registered initializer for the class, else \<open>from_documents\<close>
  (with \<open>texts\<close> renamed to \<open>documents\<close>).\<close>

definition vectorstore_build :: "env \<Rightarrow> pyclass \<Rightarrow> params \<Rightarrow> pyval \<Rightarrow> pyval result" where
  "vectorstore_build E class_object params search_kwargs =
     (case map_of (vecstore_initializer E) (cls_name class_object) of
        Some initializer \<Rightarrow> initializer class_object params search_kwargs
      | None \<Rightarrow>
          let params = (case map_of params ''texts'' of
                          Some texts \<Rightarrow>
                            AList.update ''documents'' texts (AList.delete ''texts'' params)
                        | None \<Rightarrow> params)
          in cls_call class_object ''from_documents'' params)"

text \<open>The last step: with retrieval settings, a store that can be turned into a
  retriever is wrapped.\<close>

definition vectorstore_wrap ::
    "env \<Rightarrow> pyval \<Rightarrow> pyval \<Rightarrow> pyval \<Rightarrow> pyval \<Rightarrow> pyval result" where
  "vectorstore_wrap E user_name search_type search_kwargs vecstore =
     (if py_truthy search_kwargs \<and> py_hasattr vecstore ''as_retriever'' then
        (if py_truthy (file_access E) then
           bindE (access_url E user_name)
             (\<lambda>url. VectorStoreFilterRetriever E
                      [(''vectorstore'', vecstore), (''search_type'', search_type),
                       (''search_kwargs'', search_kwargs), (''access_url'', url)])
         else as_retriever E vecstore
                [(''search_type'', search_type), (''search_kwargs'', search_kwargs)])
      else Inr vecstore)"

definition instantiate_vectorstore ::
    "env \<Rightarrow> string \<Rightarrow> pyclass \<Rightarrow> params \<Rightarrow> pyval result" where
  "instantiate_vectorstore E node_type class_object params =
     (let user_name = dict_get params ''user_name'' (PStr []);
          params = AList.delete ''user_name'' params;
          search_kwargs = dict_get params ''search_kwargs'' (PDict []);
          params = AList.delete ''search_kwargs'' params;
          search_type = dict_get params ''search_type'' (PStr ''similarity'');
          params = AList.delete ''search_type'' params;
          params = (if map_of params ''documents'' = None
                    then AList.update ''documents'' (PList []) params else params)
      in
      bindE (vectorstore_filter E node_type user_name params)
        (\<lambda>params.
      bindE (vectorstore_build E class_object params search_kwargs)
        (vectorstore_wrap E user_name search_type search_kwargs)))"



section \<open>Memory\<close>

definition cursor_marker :: string where
  "cursor_marker = ''object has no attribute '' @ [CHR 0x27] @ ''cursor'' @ [CHR 0x27]"

definition conn_marker :: string where
  "conn_marker = ''object has no field '' @ [CHR 0x22] @ ''conn'' @ [CHR 0x22]"

definition connection_msg :: "pyexc \<Rightarrow> string" where
  "connection_msg exc =
     ''Failed to build connection to database.'' @
     '' Please check your connection string and try again. Error: '' @ exc_msg exc"

text \<open>The keys removed before the construction: \<open>memory_key\<close> for the entity memory, and
  \<open>input_key\<close> and \<open>output_key\<close> when they are empty.\<close>

definition drop_empty :: "string \<Rightarrow> params \<Rightarrow> params" where
  "drop_empty key params =
     (case map_of params key of
        Some v \<Rightarrow> if v = PStr [] \<or> \<not> py_truthy v then AList.delete key params else params
      | None \<Rightarrow> params)"

definition memory_params :: "string \<Rightarrow> params \<Rightarrow> params" where
  "memory_params node_type params =
     (let params = (if node_type = ''ConversationEntityMemory''
                    then AList.delete ''memory_key'' params else params)
      in drop_empty ''output_key'' (drop_empty ''input_key'' params))"

text \<open>The body of the \<open>try\<close>: a retriever parameter is converted (\<open>memory_retriever\<close>),
  then the class is called.\<close>

definition memory_retriever :: "env \<Rightarrow> params \<Rightarrow> params result" where
  "memory_retriever E params =
     (case map_of params ''retriever'' of
        Some retriever \<Rightarrow>
          if py_hasattr retriever ''as_retriever''
          then bindE (as_retriever E retriever [])
                 (\<lambda>r. Inr (AList.update ''retriever'' r params))
          else Inr params
      | None \<Rightarrow> Inr params)"

definition memory_build :: "env \<Rightarrow> pyclass \<Rightarrow> params \<Rightarrow> pyval result" where
  "memory_build E class_object params =
     bindE (memory_retriever E params) (cls_init class_object)"

text \<open>The \<open>except\<close> clause: an exception whose message holds one of the two markers is
  replaced by the \<open>AttributeError\<close> about the connection; any other is raised again.\<close>

definition relabel :: "pyexc \<Rightarrow> pyexc" where
  "relabel exc =
     (if str_contains cursor_marker (exc_msg exc) \<or> str_contains conn_marker (exc_msg exc)
      then PyExc ''AttributeError'' (connection_msg exc)
      else exc)"

definition instantiate_memory :: "env \<Rightarrow> string \<Rightarrow> pyclass \<Rightarrow> params \<Rightarrow> pyval result" where
  "instantiate_memory E node_type class_object params =
     (case memory_build E class_object (memory_params node_type params) of
        Inl exc \<Rightarrow> Inl (relabel exc)
      | Inr memory \<Rightarrow> Inr memory)"

section \<open>Embeddings\<close>

text \<open>
  The body of the \<open>try\<close> changes \<open>params\<close> in place, and the \<open>except\<close> clause reads them as
  they are when the exception is raised: a failure comes with the parameters of that
  moment. \<open>embedding_params\<close> are the lines before the call of the class, \<open>embedding_try\<close>
  is the whole body.
\<close>

definition embedding_params :: "env \<Rightarrow> pyclass \<Rightarrow> params \<Rightarrow> (pyexc \<times> params) + params" where
  "embedding_params E class_object params =
     (let proxy = dict_get params ''openai_proxy'' PNone in
      case (if py_truthy proxy then
              (case httpx_Client E proxy of
                 Inl e \<Rightarrow> Inl (e, params)
               | Inr client \<Rightarrow>
                   let params = AList.update ''http_client'' client params in
                   (case httpx_AsyncClient E proxy of
                      Inl e \<Rightarrow> Inl (e, params)
                    | Inr async_client \<Rightarrow>
                        Inr (AList.delete ''openai_proxy''
                               (AList.update ''http_async_client'' async_client params))))
            else Inr params) of
        Inl failed \<Rightarrow> Inl failed
      | Inr params \<Rightarrow>
          Inr (if cls_name class_object = ''OpenAIEmbeddings''
               then AList.update ''check_embedding_ctx_length'' (PInt 0) params
               else params))"

definition embedding_try :: "env \<Rightarrow> pyclass \<Rightarrow> params \<Rightarrow> (pyexc \<times> params) + pyval" where
  "embedding_try E class_object params =
     (case embedding_params E class_object params of
        Inl failed \<Rightarrow> Inl failed
      | Inr params \<Rightarrow>
          (case cls_init class_object params of
             Inl e \<Rightarrow> Inl (e, params)
           | Inr embedding \<Rightarrow> Inr embedding))"

text \<open>\<open>instantiate_embedding\<close>: on a \<open>ValidationError\<close> the class is called a second time,
  with the parameters that are among its declared fields.\<close>

definition instantiate_embedding :: "env \<Rightarrow> pyclass \<Rightarrow> params \<Rightarrow> pyval result" where
  "instantiate_embedding E class_object params =
     (case embedding_try E class_object params of
        Inr embedding \<Rightarrow> Inr embedding
      | Inl (exc, params) \<Rightarrow>
          if exc_type exc = ''ValidationError''
          then cls_init class_object
                 (filter (\<lambda>(key, v). key \<in> set (cls_fields class_object)) params)
          else Inl exc)"

section \<open>Tools and toolkits\<close>

text \<open>\<open>s.lower()\<close> and \<open>s.replace(' ', '_')\<close>, for texts of ASCII characters.\<close>

definition ascii_lower :: "char \<Rightarrow> char" where
  "ascii_lower ch =
     (case map_of (zip ''ABCDEFGHIJKLMNOPQRSTUVWXYZ'' ''abcdefghijklmnopqrstuvwxyz'') ch of
        Some l \<Rightarrow> l
      | None \<Rightarrow> ch)"

definition str_lower :: "string \<Rightarrow> string" where
  "str_lower s = map ascii_lower s"

definition spaces_to_underscores :: "string \<Rightarrow> string" where
  "spaces_to_underscores s = map (\<lambda>ch. if ch = CHR '' '' then CHR ''_'' else ch) s"

text \<open>The loop over \<open>args_schema.items()\<close>: a field is typed \<open>str\<close> when its property has
  the type \<open>string\<close>, else \<open>typing.Any\<close>.\<close>

fun schema_fields :: "env \<Rightarrow> (pyval \<times> pyval) list \<Rightarrow> (pyval \<times> pyval) list
    \<Rightarrow> (pyval \<times> pyval) list result" where
  "schema_fields E [] acc = Inr acc"
| "schema_fields E ((name, prop) # rest) acc =
     bindE (py_get prop (PStr ''type'') PNone)
       (\<lambda>t.
          let field_type = (if t = PStr ''string'' then PFunc ''str'' []
                            else PFunc ''typing.Any'' [])
          in
     bindE (FieldInfo E prop)
       (\<lambda>info. schema_fields E rest (AList.update name (PTuple [field_type, info]) acc)))"

text \<open>Lines 433 to 445: the argument schema attached to a built tool.\<close>

definition attach_schema :: "env \<Rightarrow> pyval \<Rightarrow> pyval \<Rightarrow> pyval result" where
  "attach_schema E args_schema tool =
     (if py_truthy args_schema \<and> py_hasattr tool ''args_schema'' then
        (case args_schema of
           PDict items \<Rightarrow>
             bindE (schema_fields E items [])
               (\<lambda>acc.
             bindE (create_model E (fst (last items)) acc)
               (\<lambda>model. py_setattr tool ''args_schema'' model))
         | _ \<Rightarrow> Inl (PyExc ''AttributeError'' ''items''))
      else Inr tool)"

definition instantiate_tool :: "env \<Rightarrow> string \<Rightarrow> pyclass \<Rightarrow> params \<Rightarrow> pyval result" where
  "instantiate_tool E node_type class_object params =
     (let args_schema = dict_get params ''args_schema'' (PStr []);
          params = AList.delete ''args_schema'' params
      in
      if node_type = ''JsonSpec'' then
        (case map_of params ''path'' of
           None \<Rightarrow> Inl (PyExc ''KeyError'' ''path'')
         | Some path \<Rightarrow>
             let params = AList.delete ''path'' params in
             bindE (load_file_into_dict E path)
               (\<lambda>file_dict.
                  if py_truthy file_dict
                  then cls_init class_object (AList.update ''dict_'' file_dict params)
                  else Inl (PyExc ''ValueError'' ''Invalid file'')))
      else if node_type = ''PythonFunctionTool'' then
        bindE (get_function E (dict_get params ''code'' PNone))
          (\<lambda>func. cls_init class_object (AList.update ''func'' func params))
      else if node_type = ''PythonFunction'' then
        (case map_of params ''code'' of
           None \<Rightarrow> Inl (PyExc ''KeyError'' ''code'')
         | Some (PStr function_string) \<Rightarrow> eval_function E function_string
         | Some v \<Rightarrow> Inl (PyExc ''ValueError'' ''Function should be a string''))
      else
        bindE (if str_lower node_type = ''tool''
               then cls_init class_object params else Inr PNone)
          (\<lambda>first.
        bindE (cls_init class_object params)
          (attach_schema E args_schema)))"

text \<open>The lines of the dispatcher after \<open>instantiate_tool\<close>: the name of a tool has its
  spaces replaced.\<close>

definition rename_tool :: "env \<Rightarrow> pyval \<Rightarrow> pyval result" where
  "rename_tool E tool =
     (if py_hasattr tool ''name'' \<and> is_BaseTool E tool then
        bindE (py_getattr tool ''name'')
          (\<lambda>name. case name of
                     PStr s \<Rightarrow> py_setattr tool ''name'' (PStr (spaces_to_underscores s))
                   | _ \<Rightarrow> Inl (PyExc ''AttributeError'' ''replace''))
      else Inr tool)"

definition instantiate_toolkit :: "env \<Rightarrow> string \<Rightarrow> pyclass \<Rightarrow> params \<Rightarrow> pyval result" where
  "instantiate_toolkit E node_type class_object params =
     bindE (cls_init class_object params)
       (\<lambda>loaded_toolkit.
          if is_BaseToolkit E loaded_toolkit then get_tools E loaded_toolkit
          else Inr loaded_toolkit)"

section \<open>Utilities, roles, wrappers\<close>

text \<open>\<open>class_object.from_uri(params.pop('uri'))\<close>: the one positional argument is handed
  over under the name \<open>0\<close>.\<close>

definition instantiate_utility :: "string \<Rightarrow> pyclass \<Rightarrow> params \<Rightarrow> pyval result" where
  "instantiate_utility node_type class_object params =
     (if node_type = ''SQLDatabase'' then
        (case map_of params ''uri'' of
           None \<Rightarrow> Inl (PyExc ''KeyError'' ''uri'')
         | Some uri \<Rightarrow> cls_call class_object ''from_uri'' [(''0'', uri)])
      else cls_init class_object params)"

definition instantiate_autogen_roles :: "string \<Rightarrow> pyclass \<Rightarrow> params \<Rightarrow> pyval result" where
  "instantiate_autogen_roles node_type class_object params = cls_init class_object params"

text \<open>Lines 231 to 237 of \<open>instantiate_wrapper\<close>: the clients of the image wrapper behind
  a proxy.\<close>

definition dalle_clients :: "env \<Rightarrow> params \<Rightarrow> params result" where
  "dalle_clients E params =
     (if map_of params ''openai_proxy'' \<noteq> None
         \<and> py_truthy (dict_get params ''openai_proxy'' PNone)
      then
        bindE (langchain_bug_openv1 E params)
          (\<lambda>client_params.
        bindE (httpx_Client E (dict_get params ''openai_proxy'' PNone))
          (\<lambda>http.
             let client_params = AList.update ''http_client'' http client_params in
        bindE (OpenAI_images E client_params)
          (\<lambda>images.
             let params = AList.update ''client'' images params in
        bindE (httpx_AsyncClient E (dict_get params ''openai_proxy'' PNone))
          (\<lambda>ahttp.
             let client_params = AList.update ''http_client'' ahttp client_params in
        bindE (AsyncOpenAI_images E client_params)
          (\<lambda>aimages. Inr (AList.update ''async_client'' aimages params))))))
      else Inr params)"

definition instantiate_wrapper :: "env \<Rightarrow> string \<Rightarrow> pyclass \<Rightarrow> params \<Rightarrow> pyval result" where
  "instantiate_wrapper E node_type class_object params =
     (case map_of (wrapper_from_method_nodes E) node_type of
        Some method \<Rightarrow>
          build_from_method (wrapper_from_method_nodes E) node_type class_object params
      | None \<Rightarrow>
          bindE (if node_type = ''DallEAPIWrapper'' \<and> is_openai_v1 E
                 then dalle_clients E params else Inr params)
            (cls_init class_object))"

section \<open>Language models\<close>

text \<open>Lines 255 to 271 of \<open>instantiate_llm\<close>: the parameters handed to the class.\<close>

definition llm_proxy :: "env \<Rightarrow> params \<Rightarrow> params result" where
  "llm_proxy E params =
     (if is_openai_v1 E \<and> py_truthy (dict_get params ''openai_proxy'' PNone) then
        bindE (httpx_Client E (dict_get params ''openai_proxy'' PNone))
          (\<lambda>http.
             let params = AList.update ''http_client'' http params in
        bindE (httpx_AsyncClient E (dict_get params ''openai_proxy'' PNone))
          (\<lambda>ahttp.
             Inr (AList.delete ''openai_proxy''
                    (AList.update ''http_async_client'' ahttp params))))
      else Inr params)"

definition llm_api_key :: "env \<Rightarrow> string \<Rightarrow> params \<Rightarrow> params result" where
  "llm_api_key E node_type params =
     (if node_type = [] then
        let anthropic_api_key = dict_get params ''anthropic_api_key'' PNone;
            params = AList.delete ''anthropic_api_key'' params
        in
        bindE (if py_truthy anthropic_api_key then SecretStr E anthropic_api_key
               else Inr PNone)
          (\<lambda>secret. Inr (AList.update ''anthropic_api_key'' secret params))
      else Inr params)"

definition llm_max_tokens :: "env \<Rightarrow> params \<Rightarrow> params result" where
  "llm_max_tokens E params =
     (case map_of params ''max_tokens'' of
        None \<Rightarrow> Inr params
      | Some (PStr s) \<Rightarrow>
          if str_isdigit E s
          then bindE (int_of_str E s) (\<lambda>n. Inr (AList.update ''max_tokens'' n params))
          else Inr (AList.delete ''max_tokens'' params)
      | Some (PInt n) \<Rightarrow> Inr params
      | Some v \<Rightarrow> Inr (AList.delete ''max_tokens'' params))"

text \<open>Lines 274 to 282: the timeout and the retries of the settings, stored in the built
  model.\<close>

definition llm_tune :: "env \<Rightarrow> pyval \<Rightarrow> pyval result" where
  "llm_tune E llm =
     (let llm_config = llm_request E in
      bindE
        (if py_hasattr llm ''request_timeout'' then
           bindE (py_contains llm_config (PStr ''request_timeout''))
             (\<lambda>present.
                if present then
                  bindE (py_get llm_config (PStr ''request_timeout'') PNone)
                    (\<lambda>t. case t of
                            PStr s \<Rightarrow>
                              bindE (int_of_str E s) (py_setattr llm ''request_timeout'')
                          | _ \<Rightarrow> py_setattr llm ''request_timeout'' t)
                else Inr llm)
         else Inr llm)
        (\<lambda>llm.
           if py_hasattr llm ''max_retries'' then
             bindE (py_contains llm_config (PStr ''max_retries''))
               (\<lambda>present.
                  if present then
                    bindE (py_get llm_config (PStr ''max_retries'') PNone)
                      (py_setattr llm ''max_retries'')
                  else Inr llm)
           else Inr llm))"

definition instantiate_llm :: "env \<Rightarrow> string \<Rightarrow> pyclass \<Rightarrow> params \<Rightarrow> pyval result" where
  "instantiate_llm E node_type class_object params =
     bindE (llm_proxy E params)
       (\<lambda>params.
     bindE (llm_api_key E node_type params)
       (\<lambda>params.
          if node_type = ''VertexAI'' then initialize_vertexai E class_object params
          else
            bindE (llm_max_tokens E params)
              (\<lambda>params.
            bindE (cls_init class_object params)
              (llm_tune E))))"

section \<open>Custom components\<close>

text \<open>\<open>instantiate_custom_component\<close>: the class is compiled from the parameter \<open>code\<close>
  (the class handle resolved by the dispatcher is not used), called with the user id, and
  its \<open>build\<close> gives the object.\<close>

definition instantiate_custom_component ::
    "env \<Rightarrow> string \<Rightarrow> pyclass \<Rightarrow> params \<Rightarrow> pyval \<Rightarrow> pyval result" where
  "instantiate_custom_component E node_type class_object params user_id =
     (case map_of params ''code'' of
        None \<Rightarrow> Inl (PyExc ''KeyError'' ''code'')
      | Some code \<Rightarrow>
          let params_copy = AList.delete ''code'' params in
          bindE (eval_custom_component_code E code)
            (\<lambda>compiled.
          bindE (cls_init compiled [(''user_id'', user_id)])
            (\<lambda>custom_component.
          bindE (case map_of params_copy ''retriever'' of
                   Some retriever \<Rightarrow>
                     if py_hasattr retriever ''as_retriever''
                     then bindE (as_retriever E retriever [])
                            (\<lambda>r. Inr (AList.update ''retriever'' r params_copy))
                     else Inr params_copy
                 | None \<Rightarrow> Inr params_copy)
            (\<lambda>params_copy.
          bindE (component_build E custom_component params_copy)
            (\<lambda>built_object.
          bindE (custom_repr E custom_component)
            (\<lambda>r. Inr (PTuple [built_object, PDict [(PStr ''repr'', r)]])))))))"

section \<open>The dispatcher\<close>

text \<open>\<open>instantiate_based_on_type\<close>: the strategy of the category \<open>base_type\<close>; an unknown
  category calls the class.\<close>

definition instantiate_based_on_type ::
    "env \<Rightarrow> pyclass \<Rightarrow> string \<Rightarrow> string \<Rightarrow> params \<Rightarrow> pyval \<Rightarrow> pyval \<Rightarrow> pyval result" where
  "instantiate_based_on_type E class_object base_type node_type params param_id_dict user_id =
     (if base_type = ''agents'' then instantiate_agent E node_type class_object params
      else if base_type = ''prompts''
        then instantiate_prompt E node_type class_object params param_id_dict
      else if base_type = ''tools''
        then bindE (instantiate_tool E node_type class_object params) (rename_tool E)
      else if base_type = ''toolkits'' then instantiate_toolkit E node_type class_object params
      else if base_type = ''embeddings'' then instantiate_embedding E class_object params
      else if base_type = ''vectorstores''
        then instantiate_vectorstore E node_type class_object params
      else if base_type = ''documentloaders''
        then instantiate_documentloader E class_object params
      else if base_type = ''textsplitters'' then instantiate_textsplitter E class_object params
      else if base_type = ''utilities'' then instantiate_utility node_type class_object params
      else if base_type = ''chains''
        then instantiate_chains E node_type class_object params param_id_dict
      else if base_type = ''output_parsers''
        then instantiate_output_parser E node_type class_object params
      else if base_type = ''llms'' then instantiate_llm E node_type class_object params
      else if base_type = ''retrievers'' then instantiate_retriever E node_type class_object params
      else if base_type = ''memory'' then instantiate_memory E node_type class_object params
      else if base_type = ''custom_components''
        then instantiate_custom_component E node_type class_object params user_id
      else if base_type = ''wrappers'' then instantiate_wrapper E node_type class_object params
      else if base_type = ''input_output''
        then instantiate_input_output E node_type class_object params param_id_dict
      else if base_type = ''autogen_roles''
        then instantiate_autogen_roles node_type class_object params
      else cls_init class_object params)"

text \<open>
  \<open>instantiate_class\<close>: the parameters are normalized, the sourceIds bundle is taken out,
  a node type of \<open>CUSTOM_NODES\<close> is built by its hook \<open>initialize\<close> or by a call, and any
  other is resolved and dispatched.
\<close>

definition instantiate_class ::
    "env \<Rightarrow> string \<Rightarrow> string \<Rightarrow> params \<Rightarrow> pyval \<Rightarrow> pyval result" where
  "instantiate_class E node_type base_type params user_id =
     bindE (convert_params_to_sets params)
       (\<lambda>params.
     bindE (convert_kwargs E params)
       (\<lambda>params.
          case map_of params (NODE_ID_DICT E) of
            None \<Rightarrow> Inl (PyExc ''KeyError'' (NODE_ID_DICT E))
          | Some params_node_id_dict \<Rightarrow>
              let params = AList.delete (NODE_ID_DICT E) params in
              (case map_of (CUSTOM_NODES E) node_type of
                 Some custom_node \<Rightarrow>
                   (case map_of (cls_methods custom_node) ''initialize'' of
                      Some initialize \<Rightarrow> initialize params
                    | None \<Rightarrow> cls_init custom_node params)
               | None \<Rightarrow>
                   bindE (import_by_type E base_type node_type)
                     (\<lambda>class_object.
                        instantiate_based_on_type E class_object base_type node_type params
                          params_node_id_dict user_id))))"

section \<open>One construction for each build\<close>

text \<open>
  The ways in which a strategy has the class construct an object: by calling it, by one
  of its methods, or through a collaborator that is handed the class
  (\<open>handle_node_type\<close> for prompts, a registered vector store initializer with the search
  settings, \<open>initialize_vertexai\<close>). \<open>invoke\<close> performs one such construction; for a prompt
  it gives the parameters and the prompt, else the object with the parameters of the call.
\<close>

datatype entry =
    Init
  | Method string
  | Prompt_helper string
  | Initializer pyval
  | Vertex_helper




text \<open>Two class handles of the same shape differ only in what their constructions do.\<close>

definition same_shape :: "pyclass \<Rightarrow> pyclass \<Rightarrow> bool" where
  "same_shape c c' =
     (cls_name c' = cls_name c \<and> cls_repr c' = cls_repr c \<and> cls_fields c' = cls_fields c
      \<and> map fst (cls_methods c') = map fst (cls_methods c))"


section \<open>A test bench\<close>

text \<open>
  Concrete collaborators and classes, used to run the strategies on examples.
  \<open>demo_json_loads\<close> decodes the documents of \<open>demo_json_table\<close> (each entry is what
  \<open>json.loads\<close> returns on that text) and reports any other text as malformed.
  A \<open>demo_class\<close> builds an object holding the keyword arguments it was called with;
  \<open>loader.load()\<close> returns the list under the attribute \<open>docs\<close> of the loader.
\<close>

definition demo_json_table :: "(string \<times> pyval) list" where
  "demo_json_table =
     [(''1'', PInt 1),
      ([CHR 0x22, CHR ''1'', CHR 0x22], PStr ''1''),
      (''{}'', PDict []),
      (''[3, 1, 2]'', PList [PInt 3, PInt 1, PInt 2])]"

definition demo_json_loads :: "string \<Rightarrow> pyval result" where
  "demo_json_loads s =
     (case map_of demo_json_table s of
        Some v \<Rightarrow> Inr v
      | None \<Rightarrow> Inl (PyExc ''JSONDecodeError'' ''Expecting value''))"

definition demo_load :: "pyval \<Rightarrow> pyval list result" where
  "demo_load loader =
     (case py_getattr loader ''docs'' of
        Inr (PList ds) \<Rightarrow> Inr ds
      | _ \<Rightarrow> Inr [])"

definition demo_universe :: "pyval list" where
  "demo_universe = [PStr ''x'', PStr ''y'', PStr ''z'']"

definition demo_env :: env where
  "demo_env =
     \<lparr> json_loads = demo_json_loads,
       set_iter = (\<lambda>S. filter (\<lambda>v. v |\<in>| S) demo_universe),
       str_of = (\<lambda>v. ''<value>''),
       unicode_escape = (\<lambda>s. Inr s),
       Language = (\<lambda>v. Inr v),
       split_documents = (\<lambda>splitter docs. Inr docs),
       loader_load = demo_load,
       file_access = PNone,
       as_retriever = (\<lambda>obj kw. Inr (PObj ''Retriever'' ((''vectorstore'', obj) # kw))),
       VectorStoreFilterRetriever = (\<lambda>kw. Inr (PObj ''VectorStoreFilterRetriever'' kw)),
       from_agent_and_tools =
         (\<lambda>agent tools. Inr (PObj ''AgentExecutor'' [(''agent'', agent), (''tools'', tools)])),
       is_BaseTool = (\<lambda>v. False),
       chain_from_method_nodes = [(''APIChain'', ''from_llm_and_api_docs'')],
       agent_from_method_nodes = [(''ZeroShotAgent'', ''from_llm_and_tools'')],
       wrapper_from_method_nodes = [],
       output_parser_from_method_nodes = [],
       retriever_from_method_nodes = [],
       judge_knowledge_permission = (\<lambda>user ids. Inr []),
       get_list_by_ids = (\<lambda>ids. Inr []),
       decide_embeddings = (\<lambda>model. Inr (PObj ''Embeddings'' [(''model'', model)])),
       FakeEmbedding = PObj ''FakeEmbedding'' [],
       vecstore_initializer = [],
       handle_node_type = (\<lambda>node_type c ps. map_sum id (\<lambda>prompt. (ps, prompt)) (cls_init c ps)),
       handle_format_kwargs = (\<lambda>prompt ps. Inr (PDict [])),
       handle_partial_variables = (\<lambda>prompt kw. Inr prompt),
       PRESET_QUESTION = ''preset_question'',
       obj_text = (\<lambda>obj. py_getattr obj ''text''),
       file_download = (\<lambda>ref. Inr (ref, PNone)),
       load_file_into_dict = (\<lambda>path. Inr (PDict [])),
       get_function = (\<lambda>code. Inr (PFunc ''function'' [code])),
       eval_function = (\<lambda>code. Inr (PFunc ''function'' [PStr code])),
       FieldInfo = (\<lambda>prop. Inr (PObj ''FieldInfo'' [(''kwargs'', prop)])),
       create_model = (\<lambda>name fields. Inr (PObj ''Model'' [(''name'', name), (''fields'', PDict fields)])),
       is_BaseToolkit = (\<lambda>v. False),
       get_tools = (\<lambda>kit. py_getattr kit ''tools''),
       is_openai_v1 = True,
       httpx_Client = (\<lambda>p. Inr (PObj ''httpx.Client'' [(''proxies'', p)])),
       httpx_AsyncClient = (\<lambda>p. Inr (PObj ''httpx.AsyncClient'' [(''proxies'', p)])),
       SecretStr = (\<lambda>v. Inr (PObj ''SecretStr'' [(''value'', v)])),
       initialize_vertexai = (\<lambda>c ps. cls_init c ps),
       str_isdigit = (\<lambda>s. s \<noteq> [] \<and> list_all (\<lambda>ch. ch \<in> set ''0123456789'') s),
       int_of_str = (\<lambda>s. Inl (PyExc ''ValueError'' ''invalid literal for int()'')),
       llm_request = PDict [],
       eval_custom_component_code = (\<lambda>code. Inl (PyExc ''SyntaxError'' ''invalid syntax'')),
       component_build = (\<lambda>comp kw. Inr (PObj ''Built'' kw)),
       custom_repr = (\<lambda>comp. Inr (PStr ''Built'')),
       langchain_bug_openv1 = (\<lambda>ps. Inr ps),
       OpenAI_images = (\<lambda>kw. Inr (PObj ''Images'' kw)),
       AsyncOpenAI_images = (\<lambda>kw. Inr (PObj ''AsyncImages'' kw)),
       NODE_ID_DICT = ''node_id_dict'',
       CUSTOM_NODES = [],
       import_by_type = (\<lambda>base_type name. Inl (PyExc ''ValueError'' ''unknown type'')) \<rparr>"

definition demo_class :: "string \<Rightarrow> pyclass" where
  "demo_class name =
     \<lparr> cls_name = name,
       cls_repr = name,
       cls_init = (\<lambda>ps. Inr (PObj name ps)),
       cls_methods = [],
       cls_fields = [] \<rparr>"

text \<open>A chain object with one input key, and a class with a factory method.\<close>

definition demo_chain :: "string \<Rightarrow> pyval" where
  "demo_chain name =
     PObj ''LLMChain'' [(''name'', PStr name), (''input_keys'', PList [PStr ''question''])]"

definition demo_factory_class :: "string \<Rightarrow> string \<Rightarrow> pyclass" where
  "demo_factory_class name method =
     \<lparr> cls_name = name,
       cls_repr = name,
       cls_init = (\<lambda>ps. Inr (PObj name ps)),
       cls_methods = [(method, (\<lambda>ps. Inr (PObj (name @ ''.'' @ method) ps)))],
       cls_fields = [] \<rparr>"


text \<open>
  A directory with two knowledge records. The user \<open>alice\<close> may see the second only;
  nobody else may see any.
\<close>

definition demo_knowledge :: "int \<Rightarrow> string \<Rightarrow> pyval" where
  "demo_knowledge i name =
     PObj ''Knowledge''
       [(''id'', PInt i), (''collection_name'', PStr name), (''index_name'', PStr []),
        (''model'', PStr ''embedding-model'')]"

definition demo_directory :: "pyval list" where
  "demo_directory = [demo_knowledge 1 ''col_1'', demo_knowledge 2 ''col_2'']"

definition demo_env_directory :: env where
  "demo_env_directory =
     demo_env
       \<lparr> judge_knowledge_permission :=
           (\<lambda>user ids. Inr (if user = PStr ''alice'' \<and> PInt 2 \<in> set ids
                              then [demo_knowledge 2 ''col_2''] else [])),
         get_list_by_ids :=
           (\<lambda>ids. Inr (filter (\<lambda>k. (case py_getattr k ''id'' of
                                          Inr i \<Rightarrow> i \<in> set ids | Inl e \<Rightarrow> False))
                              demo_directory)) \<rparr>"


definition demo_failing_class :: "string \<Rightarrow> pyexc \<Rightarrow> pyclass" where
  "demo_failing_class name exc =
     \<lparr> cls_name = name,
       cls_repr = name,
       cls_init = (\<lambda>ps. Inl exc),
       cls_methods = [],
       cls_fields = [] \<rparr>"


section \<open>Properties\<close>

lemma map_of_delete [simp]: "map_of (AList.delete k al) = (map_of al)(k := None)"
  by (rule AList.delete_conv')

lemma map_of_update [simp]: "map_of (AList.update k v al) = (map_of al)(k \<mapsto> v)"
  by (rule AList.update_conv')

subsection \<open>Text splitter without documents\<close>

text \<open>
  C4 (counterexample). The claim asks for an error whenever the documents are absent or
  empty. With the key \<open>documents\<close> present and holding the empty list the strategy
  returns the empty list and raises nothing.
\<close>

theorem textsplitter_empty_documents_returns:
  "instantiate_textsplitter demo_env (demo_class ''CharacterTextSplitter'')
     [(''documents'', PList [])] = Inr (PList [])"
  by (simp add: instantiate_textsplitter_def)

text \<open>
  C4 (amended). When the parameters have no key \<open>documents\<close> the strategy fails with the
  \<open>ValueError\<close> of the source; when the key is present and its value is empty (falsy) the
  strategy returns the empty list and builds nothing.
\<close>

theorem textsplitter_no_documents:
  "(map_of params ''documents'' = None \<longrightarrow>
      instantiate_textsplitter E c params = Inl (PyExc ''ValueError'' textsplitter_msg)) \<and>
   (\<forall>d. map_of params ''documents'' = Some d \<and> \<not> py_truthy d \<longrightarrow>
      instantiate_textsplitter E c params = Inr (PList []))"
  by (simp add: instantiate_textsplitter_def)

theorem textsplitter_no_documents_witness:
  "instantiate_textsplitter demo_env (demo_class ''CharacterTextSplitter'')
       [(''chunk_size'', PInt 10)]
     = Inl (PyExc ''ValueError'' textsplitter_msg) \<and>
   instantiate_textsplitter demo_env (demo_class ''CharacterTextSplitter'')
       [(''chunk_size'', PInt 10), (''documents'', PStr [])] = Inr (PList [])"
  using textsplitter_no_documents
          [of "[(''chunk_size'', PInt 10)]" demo_env "demo_class ''CharacterTextSplitter''"]
        textsplitter_no_documents
          [of "[(''chunk_size'', PInt 10), (''documents'', PStr [])]" demo_env
              "demo_class ''CharacterTextSplitter''"]
  by simp

subsection \<open>Document loader: empty file path\<close>

lemma loader_file_filter_ok:
  assumes "map_of params ''file_filter'' = None
             \<or> (\<exists>s. map_of params ''file_filter'' = Some (PStr s))"
  shows "\<exists>p1. loader_file_filter params = Inr p1
           \<and> map_of p1 ''file_path'' = map_of params ''file_path''
           \<and> map_of p1 ''metadata'' = map_of params ''metadata''"
  using assms by (auto simp: loader_file_filter_def Let_def)

lemma loader_file_path_scalar:
  assumes "map_of p1 ''file_path'' = Some p" "\<not> isinstance_list p"
  shows "loader_file_path c p1 = Inr p1"
  using assms by (cases p) (auto simp: loader_file_path_def)

lemma loader_file_path_list:
  assumes "map_of p1 ''file_path'' = Some (PList (first # name # rest))"
  shows "\<exists>p2. loader_file_path c p1 = Inr p2 \<and> map_of p2 ''file_path'' = Some first
           \<and> map_of p2 ''metadata'' = map_of p1 ''metadata''"
  using assms by (auto simp: loader_file_path_def seq_index_def bindE_def Let_def)

lemma loader_metadata_ok:
  assumes "\<forall>s. m = PStr s \<and> s \<noteq> [] \<longrightarrow> (\<exists>v. json_loads E s = Inr v)"
  shows "\<exists>m'. loader_metadata E m = Inr m'"
  using assms by (cases m) (auto simp: loader_metadata_def)

text \<open>
  C9 (counterexample). The metadata is decoded before the file path is looked at: an
  empty file path together with metadata that is not valid JSON raises the \<open>ValueError\<close>
  of the metadata.
\<close>

theorem documentloader_empty_path_bad_metadata:
  "instantiate_documentloader demo_env (demo_class ''TextLoader'')
     [(''file_path'', PStr []), (''metadata'', PStr ''{'')]
   = Inl (PyExc ''ValueError'' metadata_msg)"
  by (simp add: instantiate_documentloader_def loader_file_filter_def loader_file_path_def
      loader_metadata_def bindE_def dict_get_def demo_env_def demo_json_loads_def
      demo_json_table_def)

text \<open>
  C9 (amended). When the file path is empty (an empty value that is not a list, or a list
  of at least two items whose first item is empty), the file filter, if any, is a text,
  and the metadata, if it is a non-empty text, is valid JSON, the strategy returns the
  empty document list and raises no error; the loader is not built.
\<close>

theorem documentloader_empty_file_path:
  assumes fp: "(\<exists>p. map_of params ''file_path'' = Some p \<and> \<not> isinstance_list p \<and> \<not> py_truthy p)
             \<or> (\<exists>first name rest.
                   map_of params ''file_path'' = Some (PList (first # name # rest))
                   \<and> \<not> py_truthy first)"
    and ff: "map_of params ''file_filter'' = None
             \<or> (\<exists>s. map_of params ''file_filter'' = Some (PStr s))"
    and md: "\<forall>s. map_of params ''metadata'' = Some (PStr s) \<and> s \<noteq> []
                 \<longrightarrow> (\<exists>v. json_loads E s = Inr v)"
  shows "instantiate_documentloader E class_object params = Inr (PList [])"
proof -
  obtain p1 where p1: "loader_file_filter params = Inr p1"
      "map_of p1 ''file_path'' = map_of params ''file_path''"
      "map_of p1 ''metadata'' = map_of params ''metadata''"
    using loader_file_filter_ok [OF ff] by blast
  have "\<exists>p2 q. loader_file_path class_object p1 = Inr p2 \<and> map_of p2 ''file_path'' = Some q
           \<and> \<not> py_truthy q \<and> map_of p2 ''metadata'' = map_of params ''metadata''"
    using fp
  proof
    assume "\<exists>p. map_of params ''file_path'' = Some p \<and> \<not> isinstance_list p \<and> \<not> py_truthy p"
    then obtain p where
      "map_of params ''file_path'' = Some p" "\<not> isinstance_list p" "\<not> py_truthy p"
      by blast
    then show ?thesis
      using loader_file_path_scalar [of p1 p class_object] p1 by auto
  next
    assume "\<exists>first name rest.
              map_of params ''file_path'' = Some (PList (first # name # rest))
              \<and> \<not> py_truthy first"
    then obtain first name rest where
      "map_of params ''file_path'' = Some (PList (first # name # rest))" "\<not> py_truthy first"
      by blast
    then show ?thesis
      using loader_file_path_list [of p1 first name rest class_object] p1 by auto
  qed
  then obtain p2 q where p2: "loader_file_path class_object p1 = Inr p2"
      "map_of p2 ''file_path'' = Some q" "\<not> py_truthy q"
      "map_of p2 ''metadata'' = map_of params ''metadata''"
    by blast
  have "\<exists>m'. loader_metadata E (dict_get p2 ''metadata'' PNone) = Inr m'"
    using md p2(4) by (intro loader_metadata_ok) (auto simp: dict_get_def split: option.splits)
  then obtain m' where m': "loader_metadata E (dict_get p2 ''metadata'' PNone) = Inr m'"
    by blast
  show ?thesis
    using p1(1) p2(1,2,3) m'
    by (simp add: instantiate_documentloader_def bindE_def Let_def dict_get_def)
qed

theorem documentloader_empty_file_path_witness:
  "instantiate_documentloader demo_env (demo_class ''TextLoader'')
     [(''file_path'', PStr []), (''file_filter'', PStr ''.txt,.md''), (''metadata'', PStr ''{}'')]
     = Inr (PList []) \<and>
   instantiate_documentloader demo_env (demo_class ''TextLoader'')
     [(''file_path'', PList [PStr [], PStr ''notes.txt''])] = Inr (PList [])"
proof -
  have j: "json_loads demo_env ''{}'' = Inr (PDict [])"
    by (simp add: demo_env_def demo_json_loads_def demo_json_table_def)
  have a: "instantiate_documentloader demo_env (demo_class ''TextLoader'')
     [(''file_path'', PStr []), (''file_filter'', PStr ''.txt,.md''), (''metadata'', PStr ''{}'')]
     = Inr (PList [])"
    by (rule documentloader_empty_file_path) (simp_all add: j)
  have b: "instantiate_documentloader demo_env (demo_class ''TextLoader'')
     [(''file_path'', PList [PStr [], PStr ''notes.txt''])] = Inr (PList [])"
    by (rule documentloader_empty_file_path) simp_all
  show ?thesis using a b by simp
qed

subsection \<open>Document loader: merging metadata\<close>

lemma store_items_value:
  "store_items d kvs = Inr d' \<Longrightarrow> map_of kvs k = None \<Longrightarrow> map_of d' k = map_of d k"
  by (induction kvs arbitrary: d) (auto split: if_splits)

text \<open>
  C8. A document whose metadata already has the key \<open>source\<close> is loaded, and metadata
  with another value under the same key is supplied: after the merge the document holds
  the supplied value, its own value is overwritten (\<open>dict.update\<close>).
\<close>

theorem documentloader_metadata_overwritten:
  "instantiate_documentloader demo_env (demo_class ''TextLoader'')
     [(''docs'', PList [PObj ''Document'' [(''metadata'', PDict [(PStr ''source'', PStr ''a'')])]]),
      (''metadata'', PDict [(PStr ''source'', PStr ''b'')])]
   = Inr (PList [PObj ''Document'' [(''metadata'', PDict [(PStr ''source'', PStr ''b'')])]])"
  by (simp add: instantiate_documentloader_def loader_file_filter_def loader_file_path_def
      loader_metadata_def loader_docs_def bindE_def dict_get_def demo_env_def demo_class_def
      demo_load_def merge_metadata_def dict_update_def)

subsection \<open>Normalization\<close>

lemma decode_keys_other:
  "decode_keys E keys p = Inr p' \<Longrightarrow> k \<notin> set keys \<Longrightarrow> map_of p' k = map_of p k"
proof (induction keys arbitrary: p)
  case Nil
  then show ?case by simp
next
  case (Cons key keys)
  then show ?case
    by (auto simp: bindE_def split: option.splits pyval.splits sum.splits)
qed

lemma decode_keys_fixed:
  "(\<forall>k\<in>set keys. \<forall>s. map_of p k \<noteq> Some (PStr s)) \<Longrightarrow> decode_keys E keys p = Inr p"
  by (induction keys) (auto split: option.splits pyval.splits)

lemma py_set_is_set: "py_set v = Inr s \<Longrightarrow> \<exists>S. s = PSet S"
  by (auto simp: py_set_def bindE_def split: sum.splits)

lemma param_to_set_result:
  assumes "param_to_set key p = Inr p1"
  shows "(map_of p1 key = None \<or> (\<exists>S. map_of p1 key = Some (PSet S)))
         \<and> (\<forall>k. k \<noteq> key \<longrightarrow> map_of p1 k = map_of p k)"
  using assms
  by (auto simp: param_to_set_def bindE_def split: option.splits sum.splits dest: py_set_is_set)

lemma param_to_set_fixed:
  assumes "map_of p key = None \<or> (\<exists>S. map_of p key = Some (PSet S))"
  shows "param_to_set key p = Inr p"
  using assms
  by (auto simp: param_to_set_def bindE_def py_set_def set_items_def AList.update_triv)

lemma convert_params_to_sets_result:
  assumes "convert_params_to_sets p = Inr p1"
  shows "map_of p1 ''input_node'' = None"
    and "map_of p1 ''allowed_special'' = None
          \<or> (\<exists>S. map_of p1 ''allowed_special'' = Some (PSet S))"
    and "map_of p1 ''disallowed_special'' = None
          \<or> (\<exists>S. map_of p1 ''disallowed_special'' = Some (PSet S))"
proof -
  obtain a b where a: "param_to_set ''allowed_special'' p = Inr a"
    and b: "param_to_set ''disallowed_special'' a = Inr b"
    and p1: "p1 = (if map_of b ''input_node'' \<noteq> None then AList.delete ''input_node'' b else b)"
    using assms by (auto simp: convert_params_to_sets_def bindE_def split: sum.splits)
  note ra = param_to_set_result [OF a] and rb = param_to_set_result [OF b]
  show "map_of p1 ''input_node'' = None"
    using p1 by auto
  show "map_of p1 ''allowed_special'' = None
          \<or> (\<exists>S. map_of p1 ''allowed_special'' = Some (PSet S))"
    using ra rb p1 by auto
  show "map_of p1 ''disallowed_special'' = None
          \<or> (\<exists>S. map_of p1 ''disallowed_special'' = Some (PSet S))"
    using rb p1 by auto
qed

lemma convert_params_to_sets_fixed:
  assumes "map_of p ''input_node'' = None"
    and "map_of p ''allowed_special'' = None
          \<or> (\<exists>S. map_of p ''allowed_special'' = Some (PSet S))"
    and "map_of p ''disallowed_special'' = None
          \<or> (\<exists>S. map_of p ''disallowed_special'' = Some (PSet S))"
  shows "convert_params_to_sets p = Inr p"
  using assms
  by (simp add: convert_params_to_sets_def param_to_set_fixed bindE_def)

lemma kwargs_keys_names:
  "''input_node'' \<notin> set (kwargs_keys p)"
  "''allowed_special'' \<notin> set (kwargs_keys p)"
  "''disallowed_special'' \<notin> set (kwargs_keys p)"
  by (simp_all add: kwargs_keys_def)

text \<open>
  C10 (counterexample). The parameter \<open>model_kwargs\<close> holds the JSON document \<open>"1"\<close> (a
  JSON string). The first normalization decodes it to the text \<open>1\<close>; that is again a text
  under a key containing \<open>kwargs\<close>, and the second normalization decodes it to the
  number 1: both succeed and their results differ.
\<close>

theorem normalize_not_idempotent:
  "normalize demo_env [(''model_kwargs'', PStr [CHR 0x22, CHR ''1'', CHR 0x22])]
     = Inr [(''model_kwargs'', PStr ''1'')] \<and>
   normalize demo_env [(''model_kwargs'', PStr ''1'')] = Inr [(''model_kwargs'', PInt 1)]"
  by (simp add: normalize_def convert_params_to_sets_def param_to_set_def convert_kwargs_def
      kwargs_keys_def bindE_def demo_env_def demo_json_loads_def demo_json_table_def)

text \<open>
  C10 (amended). Normalization is idempotent on every parameter mapping on which it
  succeeds with a result that holds no text under a key whose name contains \<open>kwargs\<close> or
  \<open>config\<close> (no such parameter decoded to a text): a second normalization of the result
  succeeds and returns it unchanged.
\<close>

theorem normalize_idempotent:
  assumes n: "normalize E params = Inr p'"
    and nostr: "\<forall>k s. str_contains ''kwargs'' k \<or> str_contains ''config'' k
                  \<longrightarrow> map_of p' k \<noteq> Some (PStr s)"
  shows "normalize E p' = Inr p'"
proof -
  obtain p1 where c1: "convert_params_to_sets params = Inr p1"
    and c2: "decode_keys E (kwargs_keys p1) p1 = Inr p'"
    using n by (auto simp: normalize_def bindE_def convert_kwargs_def split: sum.splits)
  note r = convert_params_to_sets_result [OF c1]
  have same: "map_of p' ''input_node'' = map_of p1 ''input_node''"
     "map_of p' ''allowed_special'' = map_of p1 ''allowed_special''"
     "map_of p' ''disallowed_special'' = map_of p1 ''disallowed_special''"
    using decode_keys_other [OF c2] kwargs_keys_names by blast+
  have s1: "convert_params_to_sets p' = Inr p'"
    using r same by (intro convert_params_to_sets_fixed) simp_all
  have s2: "convert_kwargs E p' = Inr p'"
    unfolding convert_kwargs_def
    using nostr by (intro decode_keys_fixed) (auto simp: kwargs_keys_def)
  show ?thesis
    by (simp add: normalize_def s1 s2 bindE_def)
qed

theorem normalize_idempotent_witness:
  "normalize demo_env
     [(''allowed_special'', PList [PStr ''a'', PStr ''a'']), (''input_node'', PNone),
      (''model_kwargs'', PStr ''{}'')]
   = Inr [(''allowed_special'', PSet {|PStr ''a''|}), (''model_kwargs'', PDict [])] \<and>
   normalize demo_env [(''allowed_special'', PSet {|PStr ''a''|}), (''model_kwargs'', PDict [])]
   = Inr [(''allowed_special'', PSet {|PStr ''a''|}), (''model_kwargs'', PDict [])]"
proof -
  have a: "normalize demo_env
     [(''allowed_special'', PList [PStr ''a'', PStr ''a'']), (''input_node'', PNone),
      (''model_kwargs'', PStr ''{}'')]
   = Inr [(''allowed_special'', PSet {|PStr ''a''|}), (''model_kwargs'', PDict [])]"
    by (simp add: normalize_def convert_params_to_sets_def param_to_set_def convert_kwargs_def
      kwargs_keys_def bindE_def demo_env_def demo_json_loads_def demo_json_table_def py_set_def
      set_items_def set_of_items_def)
  have b: "normalize demo_env
     [(''allowed_special'', PSet {|PStr ''a''|}), (''model_kwargs'', PDict [])]
   = Inr [(''allowed_special'', PSet {|PStr ''a''|}), (''model_kwargs'', PDict [])]"
    by (rule normalize_idempotent [OF a]) simp
  show ?thesis using a b by simp
qed

subsection \<open>Factory methods\<close>

lemma build_from_method_registered:
  assumes "map_of table node_type = Some method"
    and "map_of (cls_methods class_object) method = Some class_method"
  shows "build_from_method table node_type class_object params = class_method params"
  using assms by (simp add: build_from_method_def)

lemma build_from_method_missing:
  assumes "map_of table node_type = Some method"
    and "map_of (cls_methods class_object) method = None"
  shows "build_from_method table node_type class_object params
         = Inl (PyExc ''ValueError''
                  (''Method '' @ method @ '' not found in '' @ cls_repr class_object))"
  using assms by (simp add: build_from_method_def)

lemma build_from_method_default:
  assumes "map_of table node_type = None"
  shows "build_from_method table node_type class_object params = cls_init class_object params"
  using assms by (simp add: build_from_method_def)

text \<open>The chain strategy on a node type whose registered method the class lacks.\<close>

lemma chains_missing_method_fails:
  "instantiate_chains demo_env ''APIChain'' (demo_class ''APIChain'') [] (PDict [])
     = Inl (PyExc ''ValueError'' ''Method from_llm_and_api_docs not found in APIChain'')"
  by (simp add: instantiate_chains_def chains_params_def chains_retriever_def chains_headers_def
      build_from_method_def demo_env_def demo_class_def bindE_def)

text \<open>
  C1. The agent strategy on a node type with a registered factory method
  (\<open>ZeroShotAgent\<close>, method \<open>from_llm_and_tools\<close>) and a class that lacks the method:
  no error is raised, the agent is built by \<open>load_agent_executor\<close>, the default
  construction.
\<close>

theorem agent_missing_method_falls_back:
  "map_of (agent_from_method_nodes demo_env) ''ZeroShotAgent'' = Some ''from_llm_and_tools''
   \<and> map_of (cls_methods (demo_class ''ZeroShotAgent'')) ''from_llm_and_tools'' = None
   \<and> instantiate_agent demo_env ''ZeroShotAgent'' (demo_class ''ZeroShotAgent'')
        [(''llm_chain'', demo_chain ''A'')]
     = Inr (PObj ''AgentExecutor''
             [(''agent'', PObj ''ZeroShotAgent''
                            [(''allowed_tools'', PList []), (''llm_chain'', demo_chain ''A'')]),
              (''tools'', PList [])])"
  by (simp add: instantiate_agent_def load_agent_executor_def demo_env_def demo_class_def
      dict_get_def py_iter_def bindE_def Let_def)

subsection \<open>Sequential chains\<close>

lemma index_dict_lookup:
  assumes "distinct xs" "list_all py_hashable xs"
  shows "\<exists>d'. index_dict i xs d = Inr d'
           \<and> (\<forall>j<length xs. map_of d' (xs ! j) = Some (PInt (int (i + j))))
           \<and> (\<forall>x. x \<notin> set xs \<longrightarrow> map_of d' x = map_of d x)"
  using assms
proof (induction xs arbitrary: i d)
  case Nil
  then show ?case by simp
next
  case (Cons x xs)
  from Cons.prems have dx: "distinct xs" "list_all py_hashable xs" "x \<notin> set xs" "py_hashable x"
    by auto
  obtain d' where d': "index_dict (Suc i) xs (AList.update x (PInt (int i)) d) = Inr d'"
     "\<forall>j<length xs. map_of d' (xs ! j) = Some (PInt (int (Suc i + j)))"
     "\<forall>y. y \<notin> set xs \<longrightarrow> map_of d' y = map_of (AList.update x (PInt (int i)) d) y"
    using Cons.IH [OF dx(1,2), of "Suc i" "AList.update x (PInt (int i)) d"] by blast
  have "\<forall>j<length (x # xs). map_of d' ((x # xs) ! j) = Some (PInt (int (i + j)))"
  proof (intro allI impI)
    fix j assume "j < length (x # xs)"
    then show "map_of d' ((x # xs) ! j) = Some (PInt (int (i + j)))"
      using d'(2,3) dx(3) by (cases j) auto
  qed
  moreover have "\<forall>y. y \<notin> set (x # xs) \<longrightarrow> map_of d' y = map_of d y"
    using d'(3) by auto
  ultimately show ?case
    using d'(1) dx(4) by simp
qed

lemma pick_chains_indices:
  assumes "\<forall>j<length nids. map_of chains_dict (nids ! j) = Some (PInt (int j))"
    and "list_all py_hashable nids" "length nids \<le> length chain_list"
    and "\<forall>j\<in>set js. j < length nids"
  shows "pick_chains (PList chain_list) chains_dict (map (\<lambda>j. nids ! j) js)
         = Inr (map (\<lambda>j. chain_list ! j) js)"
  using assms(4)
proof (induction js)
  case Nil
  then show ?case by simp
next
  case (Cons j js)
  then have j: "j < length nids" and rest: "\<forall>j\<in>set js. j < length nids"
    by auto
  have h: "py_hashable (nids ! j)"
    using assms(2) j by (simp add: list_all_length)
  have g: "py_get (PDict chains_dict) (nids ! j) PNone = Inr (PInt (int j))"
    using assms(1) j h by (simp add: py_get_def)
  have i: "py_getitem (PList chain_list) (PInt (int j)) = Inr (chain_list ! j)"
    using j assms(3) by (simp add: py_getitem_def seq_index_def)
  show ?case
    using Cons.IH [OF rest] g i by (simp add: bindE_def)
qed

text \<open>
  C2. For the node type \<open>SequentialChain\<close> the parameter \<open>chains\<close> handed to the class
  is ordered by \<open>chain_order\<close>, through the positions of the ids in the source ids of
  \<open>chains\<close>: when the order lists the ids at the positions \<open>js\<close> of the (distinct) source
  ids, the chains are the sub-chains at the positions \<open>js\<close>. The witness is the example
  of the claim: sub-chains A, B, C with source ids 1, 2, 3 and the order 3, 1, 2 give
  C, A, B.
\<close>

theorem sequential_chain_reorder:
  assumes order: "map_of params ''chain_order'' = Some (PStr s)"
      "json_loads E s = Inr (PList (map (\<lambda>j. nids ! j) js))"
      "\<forall>j\<in>set js. j < length nids"
    and chs: "map_of params ''chains'' = Some (PList chain_list)"
    and ids: "py_get id_dict (PStr ''chains'') PNone = Inr (PList nids)"
      "distinct nids" "list_all py_hashable nids" "length nids \<le> length chain_list"
    and inert: "map_of params ''retriever'' = None" "\<forall>h. map_of params ''headers'' \<noteq> Some (PStr h)"
  shows "instantiate_chains E ''SequentialChain'' class_object params id_dict =
           build_from_method (chain_from_method_nodes E) ''SequentialChain'' class_object
             (AList.update ''chains'' (PList (map (\<lambda>j. chain_list ! j) js))
                (AList.delete ''chain_order'' (AList.delete ''input_node'' params)))"
proof -
  obtain d where d: "index_dict 0 nids [] = Inr d"
      "\<forall>j<length nids. map_of d (nids ! j) = Some (PInt (int j))"
    using index_dict_lookup [OF ids(2,3), of 0 "[]"] by auto
  have pick: "pick_chains (PList chain_list) d (map (\<lambda>j. nids ! j) js)
         = Inr (map (\<lambda>j. chain_list ! j) js)"
    by (rule pick_chains_indices [OF d(2) ids(3,4) order(3)])
  have seq: "chains_sequential E params id_dict =
      Inr (AList.update ''chains'' (PList (map (\<lambda>j. chain_list ! j) js))
                (AList.delete ''chain_order'' (AList.delete ''input_node'' params)))"
    using order(1,2) chs ids(1) d(1) pick
    by (simp add: chains_sequential_def Let_def bindE_def py_iter_def dict_get_def)
  have hd: "chains_headers E (AList.update ''chains'' (PList (map (\<lambda>j. chain_list ! j) js))
                (AList.delete ''chain_order'' (AList.delete ''input_node'' params)))
        = Inr (AList.update ''chains'' (PList (map (\<lambda>j. chain_list ! j) js))
                (AList.delete ''chain_order'' (AList.delete ''input_node'' params)))"
    using inert(2) by (auto simp: chains_headers_def split: option.splits pyval.splits)
  show ?thesis
    using inert(1) seq hd
    by (simp add: instantiate_chains_def chains_params_def chains_retriever_def bindE_def)
qed

theorem sequential_chain_reorder_witness:
  "instantiate_chains demo_env ''SequentialChain'' (demo_class ''SequentialChain'')
     [(''chains'', PList [demo_chain ''A'', demo_chain ''B'', demo_chain ''C'']), (''chain_order'', PStr ''[3, 1, 2]'')]
     (PDict [(PStr ''chains'', PList [PInt 1, PInt 2, PInt 3])])
   = Inr (PObj ''SequentialChain'' [(''chains'', PList [demo_chain ''C'', demo_chain ''A'', demo_chain ''B''])])"
proof -
  have "instantiate_chains demo_env ''SequentialChain'' (demo_class ''SequentialChain'')
     [(''chains'', PList [demo_chain ''A'', demo_chain ''B'', demo_chain ''C'']), (''chain_order'', PStr ''[3, 1, 2]'')]
     (PDict [(PStr ''chains'', PList [PInt 1, PInt 2, PInt 3])])
    = build_from_method (chain_from_method_nodes demo_env) ''SequentialChain'' (demo_class ''SequentialChain'')
             (AList.update ''chains'' (PList (map (\<lambda>j. [demo_chain ''A'', demo_chain ''B'', demo_chain ''C''] ! j) [2, 0, 1]))
                (AList.delete ''chain_order'' (AList.delete ''input_node''
                   [(''chains'', PList [demo_chain ''A'', demo_chain ''B'', demo_chain ''C'']), (''chain_order'', PStr ''[3, 1, 2]'')])))"
    by (rule sequential_chain_reorder [where s = "''[3, 1, 2]''" and nids = "[PInt 1, PInt 2, PInt 3]"])
       (simp_all add: demo_env_def demo_json_loads_def demo_json_table_def py_get_def)
  then show ?thesis
    by (simp add: build_from_method_def demo_env_def demo_class_def)
qed

subsection \<open>Report nodes\<close>





subsection \<open>Prompt variables\<close>







subsection \<open>Vector stores with a permission check\<close>




text \<open>With \<open>_is_check_auth\<close> false the directory is not asked about the user: \<open>bob\<close>,
  who may see nothing, gets both candidate collections.\<close>

lemma vectorstore_without_check_auth:
  "instantiate_vectorstore demo_env_directory ''MilvusWithPermissionCheck''
    (demo_factory_class ''Milvus'' ''from_documents'')
    [(''user_name'', PStr ''bob''), (''_is_check_auth'', PInt 0), (''collection_name'', PList [PDict [(PStr ''key'', PInt 1)], PDict [(PStr ''key'', PInt 2)]])]
   = Inr (PObj ''Milvus.from_documents'' [(''collection_name'', PList [PStr ''col_1'', PStr ''col_2'']), (''documents'', PList []),
       (''collection_embeddings'', PList [PObj ''Embeddings'' [(''model'', PStr ''embedding-model'')], PObj ''Embeddings'' [(''model'', PStr ''embedding-model'')]]),
       (''partition_keys'', PList [PNone, PNone]),
       (''embedding'', PObj ''Embeddings'' [(''model'', PStr ''embedding-model'')])])"
  by (simp add: instantiate_vectorstore_def vectorstore_filter_def vectorstore_build_def
      vectorstore_wrap_def knowledge_ids_def py_iter_def py_getitem_def dict_getitem_def bindE_def
      dict_get_def cls_call_def demo_env_directory_def demo_env_def demo_factory_class_def
      demo_knowledge_def startswith_partition_def Let_def
      demo_directory_def)





subsection \<open>Construction failures\<close>

text \<open>
  The lemmas \<open>planned_\<dots>\<close> show, strategy by strategy, that a build follows one plan:
  its outcome either does not depend on what the class constructs, or is that of one
  construction, with parameters fixed beforehand, whose failure is handed on.
\<close>

lemma same_shape_refl: "same_shape c c"
  by (simp add: same_shape_def)






































text \<open>A class that cannot be constructed, in the chain strategy: its failure comes
  back as it is.\<close>

lemma failing_chain_propagates:
  "instantiate_based_on_type demo_env
     (demo_failing_class ''LLMChain'' (PyExc ''TypeError'' ''bad argument''))
     ''chains'' ''LLMChain'' [] (PDict []) PNone
   = Inl (PyExc ''TypeError'' ''bad argument'')"
  by (simp add: instantiate_based_on_type_def instantiate_chains_def chains_params_def
      chains_retriever_def chains_headers_def build_from_method_def bindE_def demo_env_def
      demo_failing_class_def)





end
